theory Spec2Isabelle
  imports Complex_Main "HOL-Library.Word" "HOL-Library.Signed_Division"
begin

section \<open>Machine integers of the Go source\<close>

text \<open>
  Go's \<open>uint64\<close> and \<open>int64\<close> are both 64-bit words; the conversions \<open>int64(x)\<close> and
  \<open>uint64(x)\<close> between them keep the bits, so both are the type \<open>64 word\<close> here and a
  conversion is the identity.  Unsigned values are read with \<open>uint\<close> and compared with
  \<open><\<close>; signed values are read with \<open>sint\<close> and compared through it.  \<open>+\<close>, \<open>-\<close> and
  \<open>*\<close> wrap around, as Go's operators do.  \<open>*big.Int\<close> is \<open>int\<close>.

  \<open>arbmath.Bips\<close> is a signed 64-bit integer: the source converts \<open>int64\<close> and \<open>uint64\<close>
  values to it (lines 69, 130 and 139), subtracts \<open>OneInBips\<close> from a ratio to get an exponent
  that is negative when the price is to fall (line 139), and converts it to \<open>uint64\<close> where
  an unsigned value is needed (lines 127 and 128).
\<close>

type_synonym u64 = "64 word"
type_synonym i64 = "64 word"
type_synonym Bips = "64 word" \<comment> \<open>\<open>arbmath.Bips\<close>, a signed 64-bit count of basis points\<close>

datatype panic = IntegerDivideByZero

text \<open>Go's \<open>/\<close> on \<open>uint64\<close>; the caller tests the divisor first, where Go panics.\<close>

definition udiv :: "u64 \<Rightarrow> u64 \<Rightarrow> u64" where
  "udiv a b = a div b"

text \<open>Go's \<open>/\<close> on \<open>int64\<close> truncates towards zero, and \<open>MinInt64 / -1\<close> wraps.\<close>

definition sdiv64 :: "i64 \<Rightarrow> i64 \<Rightarrow> i64" where
  "sdiv64 a b = word_of_int (sint a sdiv sint b)"

definition MaxUint64 :: u64 where
  "MaxUint64 = 0xFFFFFFFFFFFFFFFF"

definition MaxInt64 :: i64 where
  "MaxInt64 = 0x7FFFFFFFFFFFFFFF"

definition MinInt64 :: i64 where
  "MinInt64 = 0x8000000000000000"

section \<open>Package \<open>arbmath\<close>\<close>

text \<open>
  Modelled from the spec: the helpers of package \<open>util/arbmath\<close> are called by the pricing
  code but their bodies are not among the sources; the definitions below follow section 4.A
  of the specification (add, subtract and multiply that clamp at the nearest bound, the
  cast that clamps negatives to zero, basis points with \<open>one_in_bips = 10 000\<close>,
  \<open>natural_to_bips(n) = n \<times> 10 000\<close>, \<open>big_mul_by_bips(x, b) = (x \<times> b) / 10 000\<close> rounded down).
\<close>

definition MinInt :: "i64 \<Rightarrow> i64 \<Rightarrow> i64" where
  "MinInt v ceil = (if sint ceil < sint v then ceil else v)"

definition SaturatingAdd :: "i64 \<Rightarrow> i64 \<Rightarrow> i64" where
  "SaturatingAdd augend addend =
     (let s = sint augend + sint addend
      in if 2 ^ 63 \<le> s then MaxInt64 else if s < - (2 ^ 63) then MinInt64 else word_of_int s)"

definition SaturatingSub :: "i64 \<Rightarrow> i64 \<Rightarrow> i64" where
  "SaturatingSub minuend subtrahend =
     (let d = sint minuend - sint subtrahend
      in if 2 ^ 63 \<le> d then MaxInt64 else if d < - (2 ^ 63) then MinInt64 else word_of_int d)"

definition SaturatingMul :: "i64 \<Rightarrow> i64 \<Rightarrow> i64" where
  "SaturatingMul multiplicand multiplier =
     (let p = sint multiplicand * sint multiplier
      in if 2 ^ 63 \<le> p then MaxInt64 else if p < - (2 ^ 63) then MinInt64 else word_of_int p)"

definition SaturatingUAdd :: "u64 \<Rightarrow> u64 \<Rightarrow> u64" where
  "SaturatingUAdd augend addend =
     (if 2 ^ 64 \<le> uint augend + uint addend then MaxUint64 else augend + addend)"

definition SaturatingUMul :: "u64 \<Rightarrow> u64 \<Rightarrow> u64" where
  "SaturatingUMul multiplicand multiplier =
     (if 2 ^ 64 \<le> uint multiplicand * uint multiplier then MaxUint64
      else multiplicand * multiplier)"

definition SaturatingUCast :: "i64 \<Rightarrow> u64" where
  "SaturatingUCast v = (if sint v < 0 then 0 else v)"

definition SaturatingCast :: "u64 \<Rightarrow> i64" where
  "SaturatingCast v = (if 2 ^ 63 \<le> uint v then MaxInt64 else v)"

definition OneInBips :: Bips where
  "OneInBips = 10000"

definition PercentToBips :: "i64 \<Rightarrow> Bips" where
  "PercentToBips percentage = SaturatingMul percentage 100"

definition NaturalToBips :: "i64 \<Rightarrow> Bips" where
  "NaturalToBips natural = SaturatingMul natural OneInBips"

definition BigMulByBips :: "int \<Rightarrow> Bips \<Rightarrow> int" where
  "BigMulByBips v bips = (v * sint bips) div sint OneInBips"

definition BigMulByInt :: "int \<Rightarrow> int \<Rightarrow> int" where
  "BigMulByInt multiplicand multiplier = multiplicand * multiplier"

definition IntMulByBips :: "i64 \<Rightarrow> Bips \<Rightarrow> i64" where
  "IntMulByBips v bips = sdiv64 (v * bips) OneInBips"

definition BigLessThan :: "int \<Rightarrow> int \<Rightarrow> bool" where
  "BigLessThan first second = (first < second)"

definition BigGreaterThan :: "int \<Rightarrow> int \<Rightarrow> bool" where
  "BigGreaterThan first second = (first > second)"

text \<open>
  Modelled from the spec: \<open>arbmath.ApproxExpBasisPoints\<close> and the big-float helpers
  \<open>UfracToBigFloat\<close>, \<open>BigFloatMulByUint\<close>, \<open>BigAddFloat\<close> (and \<open>big.Float\<close>'s
  \<open>Uint64\<close>) are missing as well, and the specification fixes properties of them only
  (section 4.A: the exponential is monotonically non-decreasing and is exactly 10 000 at 0;
  sections 4.D and 9: ratios are held in a big float and truncated to \<open>uint64\<close>).  They are
  taken as parameters: the pricing functions receive a record of them, and a theorem names the
  properties it needs.  \<open>'f\<close> is the type of big floats.
\<close>

record 'f arbmath_kit =
  ApproxExpBasisPoints :: "Bips \<Rightarrow> Bips"
  UfracToBigFloat :: "u64 \<Rightarrow> u64 \<Rightarrow> 'f"
  BigFloatMulByUint :: "'f \<Rightarrow> u64 \<Rightarrow> 'f"
  BigAddFloat :: "'f \<Rightarrow> 'f \<Rightarrow> 'f"
  BigFloatUint64 :: "'f \<Rightarrow> u64"

text \<open>\<open>params.ElasticityMultiplier\<close> of go-ethereum (the specification's constant 2).\<close>

definition ElasticityMultiplier :: int where
  "ElasticityMultiplier = 2"

section \<open>The pricing state and its storage accessors\<close>

text \<open>
  Modelled from the spec: the type \<open>L2PricingState\<close>, its getters and setters and the
  storage they go through are not among the sources.  Section 3 lists the persisted scalars,
  one per slot; sections 4.B, 6 and 7 say that a read or a write of a slot may fail with a
  storage error.  The state is a record of the scalars together with the list of accesses
  that fail.  A getter returns Go's pair of a value and an error (the zero value with an
  error); a setter returns the state and an error (the state untouched with an error).
\<close>

datatype slot =
    GasPoolSlot | GasPoolLastBlockSlot | GasPoolSecondsSlot | GasPoolTargetSlot
  | GasPoolWeightSlot | RateEstimateSlot | RateEstimateInertiaSlot | SpeedLimitSlot
  | PerBlockGasLimitSlot | BaseFeeSlot | MinBaseFeeSlot | GasBacklogSlot
  | PricingInertiaSlot | BacklogToleranceSlot

datatype access = Load slot | Store slot

datatype error = StorageError access

record L2PricingState =
  gasPool_preExp :: i64
  gasPoolLastBlock :: i64
  gasPoolSeconds :: u64
  gasPoolTarget :: Bips
  gasPoolWeight :: Bips
  rateEstimate :: u64
  rateEstimateInertia :: u64
  speedLimitPerSecond :: u64
  perBlockGasLimit :: u64
  baseFeeWei :: int
  minBaseFeeWei :: int
  gasBacklog :: u64
  pricingInertia :: u64
  backlogTolerance :: u64
  failing :: "access list"

definition load :: "slot \<Rightarrow> 'a::zero \<Rightarrow> L2PricingState \<Rightarrow> 'a \<times> error option" where
  "load s v ps =
     (if Load s \<in> set (failing ps) then (0, Some (StorageError (Load s))) else (v, None))"

definition store ::
  "slot \<Rightarrow> L2PricingState \<Rightarrow> L2PricingState \<Rightarrow> L2PricingState \<times> error option" where
  "store s ps' ps =
     (if Store s \<in> set (failing ps) then (ps, Some (StorageError (Store s))) else (ps', None))"

definition GasPool_preExp :: "L2PricingState \<Rightarrow> i64 \<times> error option" where
  "GasPool_preExp ps = load GasPoolSlot (gasPool_preExp ps) ps"

definition SetGasPool_preExp :: "i64 \<Rightarrow> L2PricingState \<Rightarrow> L2PricingState \<times> error option" where
  "SetGasPool_preExp v ps = store GasPoolSlot (ps\<lparr>gasPool_preExp := v\<rparr>) ps"

definition GasPoolLastBlock :: "L2PricingState \<Rightarrow> i64 \<times> error option" where
  "GasPoolLastBlock ps = load GasPoolLastBlockSlot (gasPoolLastBlock ps) ps"

definition SetGasPoolLastBlock :: "i64 \<Rightarrow> L2PricingState \<Rightarrow> L2PricingState \<times> error option" where
  "SetGasPoolLastBlock v ps = store GasPoolLastBlockSlot (ps\<lparr>gasPoolLastBlock := v\<rparr>) ps"

definition GasPoolSeconds :: "L2PricingState \<Rightarrow> u64 \<times> error option" where
  "GasPoolSeconds ps = load GasPoolSecondsSlot (gasPoolSeconds ps) ps"

definition GasPoolTarget :: "L2PricingState \<Rightarrow> Bips \<times> error option" where
  "GasPoolTarget ps = load GasPoolTargetSlot (gasPoolTarget ps) ps"

definition GasPoolWeight :: "L2PricingState \<Rightarrow> Bips \<times> error option" where
  "GasPoolWeight ps = load GasPoolWeightSlot (gasPoolWeight ps) ps"

definition RateEstimate :: "L2PricingState \<Rightarrow> u64 \<times> error option" where
  "RateEstimate ps = load RateEstimateSlot (rateEstimate ps) ps"

definition SetRateEstimate :: "u64 \<Rightarrow> L2PricingState \<Rightarrow> L2PricingState \<times> error option" where
  "SetRateEstimate v ps = store RateEstimateSlot (ps\<lparr>rateEstimate := v\<rparr>) ps"

definition RateEstimateInertia :: "L2PricingState \<Rightarrow> u64 \<times> error option" where
  "RateEstimateInertia ps = load RateEstimateInertiaSlot (rateEstimateInertia ps) ps"

definition SpeedLimitPerSecond :: "L2PricingState \<Rightarrow> u64 \<times> error option" where
  "SpeedLimitPerSecond ps = load SpeedLimitSlot (speedLimitPerSecond ps) ps"

definition MaxPerBlockGasLimit :: "L2PricingState \<Rightarrow> u64 \<times> error option" where
  "MaxPerBlockGasLimit ps = load PerBlockGasLimitSlot (perBlockGasLimit ps) ps"

definition BaseFeeWei :: "L2PricingState \<Rightarrow> int \<times> error option" where
  "BaseFeeWei ps = load BaseFeeSlot (baseFeeWei ps) ps"

definition SetBaseFeeWei :: "int \<Rightarrow> L2PricingState \<Rightarrow> L2PricingState \<times> error option" where
  "SetBaseFeeWei v ps = store BaseFeeSlot (ps\<lparr>baseFeeWei := v\<rparr>) ps"

definition MinBaseFeeWei :: "L2PricingState \<Rightarrow> int \<times> error option" where
  "MinBaseFeeWei ps = load MinBaseFeeSlot (minBaseFeeWei ps) ps"

definition GasBacklog :: "L2PricingState \<Rightarrow> u64 \<times> error option" where
  "GasBacklog ps = load GasBacklogSlot (gasBacklog ps) ps"

definition SetGasBacklog :: "u64 \<Rightarrow> L2PricingState \<Rightarrow> L2PricingState \<times> error option" where
  "SetGasBacklog v ps = store GasBacklogSlot (ps\<lparr>gasBacklog := v\<rparr>) ps"

definition PricingInertia :: "L2PricingState \<Rightarrow> u64 \<times> error option" where
  "PricingInertia ps = load PricingInertiaSlot (pricingInertia ps) ps"

definition BacklogTolerance :: "L2PricingState \<Rightarrow> u64 \<times> error option" where
  "BacklogTolerance ps = load BacklogToleranceSlot (backlogTolerance ps) ps"

text \<open>
  Modelled from the spec: \<open>GasPoolMax\<close> is missing; section 3 gives
  \<open>gas_pool_max = speed_limit \<times> gas_pool_seconds\<close>, a signed 64-bit value, with arithmetic
  that saturates.  The error is that of the second read.
\<close>

definition GasPoolMax :: "L2PricingState \<Rightarrow> i64 \<times> error option" where
  "GasPoolMax ps =
     (let speedLimit = fst (SpeedLimitPerSecond ps);
          (seconds, err) = GasPoolSeconds ps
      in case err of
           Some e \<Rightarrow> (0, Some e)
         | None \<Rightarrow> (SaturatingCast (SaturatingUMul seconds speedLimit), None))"

section \<open>The pricing model\<close>

definition InitialSpeedLimitPerSecond :: u64 where
  "InitialSpeedLimitPerSecond = 1000000"

definition InitialPerBlockGasLimit :: u64 where
  "InitialPerBlockGasLimit = 20 * 1000000"

definition InitialMinimumBaseFeeWei :: int where
  "InitialMinimumBaseFeeWei = 1000000000 div 10" \<comment> \<open>\<open>params.GWei / 10\<close>\<close>

definition InitialBaseFeeWei :: int where
  "InitialBaseFeeWei = InitialMinimumBaseFeeWei"

definition InitialGasPoolSeconds :: u64 where
  "InitialGasPoolSeconds = 10 * 60"

definition InitialRateEstimateInertia :: u64 where
  "InitialRateEstimateInertia = 60"

definition InitialPricingInertia :: u64 where
  "InitialPricingInertia = 102"

definition InitialBacklogTolerance :: u64 where
  "InitialBacklogTolerance = 10"

definition InitialGasPoolTargetBips :: Bips where
  "InitialGasPoolTargetBips = PercentToBips 80"

definition InitialGasPoolWeightBips :: Bips where
  "InitialGasPoolWeightBips = PercentToBips 60"

definition FirstExponentialPricingVersion :: u64 where
  "FirstExponentialPricingVersion = 4"

text \<open>
  The functions return the state in place of mutating the receiver.  \<open>_ = f()\<close> and
  \<open>x, _ := f()\<close> drop the error component (\<open>fst\<close> of a setter's or a getter's pair).
\<close>

definition AddToGasPool_preExp :: "i64 \<Rightarrow> L2PricingState \<Rightarrow> L2PricingState \<times> error option" where
  "AddToGasPool_preExp gas ps =
     (case GasPool_preExp ps of
        (gasPool, Some err) \<Rightarrow> (ps, Some err)
      | (gasPool, None) \<Rightarrow> SetGasPool_preExp (SaturatingAdd gasPool gas) ps)"

definition AddToGasPool :: "i64 \<Rightarrow> u64 \<Rightarrow> L2PricingState \<Rightarrow> L2PricingState \<times> error option" where
  "AddToGasPool gas arbosVersion ps =
     (if arbosVersion < FirstExponentialPricingVersion then AddToGasPool_preExp gas ps
      else case GasBacklog ps of
        (backlog, Some err) \<Rightarrow> (ps, Some err)
      | (backlog, None) \<Rightarrow> SetGasBacklog (SaturatingUCast (SaturatingSub backlog gas)) ps)"

text \<open>
  \<open>UpdatePricingModel_preExp\<close> has no result in Go; the model returns the state, or the
  panic of an integer division by zero.  The debug printing and the warning of the log
  have no effect on the state and are left out.  With a speed limit of 0 the function
  cannot get past the division of line 103, whatever the big-float quotient of line 97 does.
\<close>

definition UpdatePricingModel_preExp ::
  "'f arbmath_kit \<Rightarrow> int \<Rightarrow> u64 \<Rightarrow> u64 \<Rightarrow> bool \<Rightarrow> L2PricingState \<Rightarrow> panic + L2PricingState" where
  "UpdatePricingModel_preExp K l2BaseFee timePassed arbosVersion debug ps =
     (let gasPool0 = fst (GasPool_preExp ps);
          gasPoolLastBlock0 = fst (GasPoolLastBlock ps);
          poolMax = fst (GasPoolMax ps);
          gasPool = MinInt gasPool0 poolMax;
          gasPoolLastBlock = MinInt gasPoolLastBlock0 poolMax;
          gasUsed = gasPoolLastBlock - gasPool;
          rateSeconds = fst (RateEstimateInertia ps);
          priorRate = fst (RateEstimate ps)
      in if rateSeconds + timePassed = 0 then Inl IntegerDivideByZero
      else
      let rate = udiv (SaturatingUAdd (SaturatingUMul rateSeconds priorRate) gasUsed)
                      (rateSeconds + timePassed);
          ps1 = fst (SetRateEstimate rate ps);
          speedLimit = fst (SpeedLimitPerSecond ps1);
          rateRatio = UfracToBigFloat K rate speedLimit
      in if speedLimit = 0 then Inl IntegerDivideByZero
      else
      let timeToFull = sdiv64 (poolMax - gasPool) speedLimit
      in if timePassed > timeToFull \<and> SaturatingUMul (2 * speedLimit) timePassed = 0
         then Inl IntegerDivideByZero
      else
      let (averagePool, newGasPool) =
            (if timePassed > timeToFull then
               (let spaceBefore = poolMax - gasPool
                in (poolMax - udiv (spaceBefore * spaceBefore)
                                   (SaturatingUMul (2 * speedLimit) timePassed),
                    poolMax))
             else (gasPool + udiv (timePassed * speedLimit) 2,
                   gasPool + speedLimit * timePassed));
          poolTarget = fst (GasPoolTarget ps1);
          poolTargetGas = IntMulByBips poolMax poolTarget;
          poolRatio = (if averagePool < 2 * poolTargetGas
                       then UfracToBigFloat K (2 * poolTargetGas - averagePool) poolTargetGas
                       else UfracToBigFloat K 0 1);
          poolWeight = fst (GasPoolWeight ps1);
          oneInBips = OneInBips;
          averageOfRatiosRaw = BigFloatUint64 K (BigAddFloat K
              (BigFloatMulByUint K poolRatio poolWeight)
              (BigFloatMulByUint K rateRatio (oneInBips - poolWeight)));
          averageOfRatios =
            (if arbosVersion < 3 \<and> sint (PercentToBips 200) < sint averageOfRatiosRaw
             then PercentToBips 200 else averageOfRatiosRaw);
          exp = sdiv64 ((averageOfRatios - OneInBips) * timePassed) 120;
          price = BigMulByBips l2BaseFee (ApproxExpBasisPoints K exp);
          maxPrice = BigMulByInt l2BaseFee ElasticityMultiplier;
          minPrice = fst (MinBaseFeeWei ps1);
          price1 = (if BigLessThan price minPrice then minPrice else price);
          price2 = (if BigGreaterThan price1 maxPrice then maxPrice else price1);
          ps2 = fst (SetBaseFeeWei price2 ps1);
          ps3 = fst (SetGasPool_preExp newGasPool ps2);
          ps4 = fst (SetGasPoolLastBlock newGasPool ps3)
      in Inr ps4)"

definition UpdatePricingModel ::
  "'f arbmath_kit \<Rightarrow> int \<Rightarrow> u64 \<Rightarrow> u64 \<Rightarrow> bool \<Rightarrow> L2PricingState \<Rightarrow> panic + L2PricingState" where
  "UpdatePricingModel K l2BaseFee timePassed arbosVersion debug ps =
     (if arbosVersion < FirstExponentialPricingVersion
      then UpdatePricingModel_preExp K l2BaseFee timePassed arbosVersion debug ps
      else
      let speedLimit = fst (SpeedLimitPerSecond ps);
          ps1 = fst (AddToGasPool (timePassed * speedLimit) arbosVersion ps);
          inertia = fst (PricingInertia ps1);
          tolerance = fst (BacklogTolerance ps1);
          backlog = fst (GasBacklog ps1);
          minBaseFee = fst (MinBaseFeeWei ps1)
      in if backlog > tolerance * speedLimit then
           (if inertia * speedLimit = 0 then Inl IntegerDivideByZero
            else
            let excess = backlog - tolerance * speedLimit;
                exponentBips = sdiv64 (NaturalToBips excess) (inertia * speedLimit);
                baseFee = BigMulByBips minBaseFee (ApproxExpBasisPoints K exponentBips)
            in Inr (fst (SetBaseFeeWei baseFee ps1)))
         else Inr (fst (SetBaseFeeWei minBaseFee ps1)))"

definition PerBlockGasLimit :: "u64 \<Rightarrow> L2PricingState \<Rightarrow> u64 \<times> error option" where
  "PerBlockGasLimit arbosVersion ps =
     (if arbosVersion \<ge> FirstExponentialPricingVersion then MaxPerBlockGasLimit ps
      else
      let pool = fst (GasPool_preExp ps);
          (maxLimit, err) = MaxPerBlockGasLimit ps
      in if sint pool < 0 \<or> err \<noteq> None then (0, err)
         else if pool > maxLimit then (maxLimit, None)
         else (pool, None))"

section \<open>Reference instances for evaluation\<close>

text \<open>
  Modelled from the spec: an instance of the missing \<open>arbmath\<close> parameters, used to run
  the pricing functions on concrete inputs.  The exponential is the quartic Maclaurin
  polynomial of \<open>e^x\<close> in basis points, evaluated by Horner's rule with saturating products
  and inverted for a negative argument; of the properties that section 4.A lists it has
  the ones the theorems use (it is non-decreasing and exactly 10 000 at 0, as proved below)
  and it saturates for large arguments.  The big floats are the rationals (section 9: a
  big-rational type with explicit truncation to \<open>uint64\<close>).
\<close>

definition HornerQuartic :: "u64 \<Rightarrow> u64" where
  "HornerQuartic x =
     (let bips = OneInBips;
          res1 = bips + udiv x 4;
          res2 = bips + udiv (SaturatingUMul res1 x) (3 * bips);
          res3 = bips + udiv (SaturatingUMul res2 x) (2 * bips);
          res4 = bips + udiv (SaturatingUMul res3 x) (1 * bips)
      in res4)"

definition ApproxExpQuartic :: "Bips \<Rightarrow> Bips" where
  "ApproxExpQuartic v =
     (let negative = (sint v < 0);
          x = (if negative then - v else v);
          res = HornerQuartic x
      in if negative then SaturatingCast (udiv (OneInBips * OneInBips) res)
         else SaturatingCast res)"

definition RatToUint64 :: "rat \<Rightarrow> u64" where
  "RatToUint64 q = (if q < 0 then 0 else if 2 ^ 64 \<le> q then MaxUint64 else word_of_int \<lfloor>q\<rfloor>)"

definition reference_kit :: "rat arbmath_kit" where
  "reference_kit =
     \<lparr> ApproxExpBasisPoints = ApproxExpQuartic,
       UfracToBigFloat = (\<lambda>n d. of_int (uint n) / of_int (uint d)),
       BigFloatMulByUint = (\<lambda>f n. f * of_int (uint n)),
       BigAddFloat = (\<lambda>f g. f + g),
       BigFloatUint64 = RatToUint64 \<rparr>"

text \<open>
  Modelled from the spec: the genesis state (\<open>InitializeL2PricingState\<close> is missing):
  the defaults of section 3, the pool full, the rate estimate at the speed limit as the
  test declares it, no backlog, and a storage in which no access fails.
\<close>

definition InitialState :: L2PricingState where
  "InitialState =
     \<lparr> gasPool_preExp = InitialGasPoolSeconds * InitialSpeedLimitPerSecond,
       gasPoolLastBlock = InitialGasPoolSeconds * InitialSpeedLimitPerSecond,
       gasPoolSeconds = InitialGasPoolSeconds,
       gasPoolTarget = InitialGasPoolTargetBips,
       gasPoolWeight = InitialGasPoolWeightBips,
       rateEstimate = InitialSpeedLimitPerSecond,
       rateEstimateInertia = InitialRateEstimateInertia,
       speedLimitPerSecond = InitialSpeedLimitPerSecond,
       perBlockGasLimit = InitialPerBlockGasLimit,
       baseFeeWei = InitialBaseFeeWei,
       minBaseFeeWei = InitialMinimumBaseFeeWei,
       gasBacklog = 0,
       pricingInertia = InitialPricingInertia,
       backlogTolerance = InitialBacklogTolerance,
       failing = [] \<rparr>"

section \<open>Parts of the pre-exponential update\<close>

text \<open>
  Names for the quantities that \<open>UpdatePricingModel_preExp\<close> computes on the way: the gas
  used and the rate (lines 82 to 90), the average and the new pool (lines 103 to 113), the
  exponent (lines 114 to 139) and the clamped price (lines 155 to 161).
  Lemma \<open>UpdatePricingModel_preExp_unfold\<close> below shows that the function is composed of them.
\<close>

definition preExp_gasUsed :: "L2PricingState \<Rightarrow> u64" where
  "preExp_gasUsed ps =
     MinInt (fst (GasPoolLastBlock ps)) (fst (GasPoolMax ps)) -
     MinInt (fst (GasPool_preExp ps)) (fst (GasPoolMax ps))"

definition preExp_rate :: "u64 \<Rightarrow> L2PricingState \<Rightarrow> u64" where
  "preExp_rate timePassed ps =
     udiv (SaturatingUAdd (SaturatingUMul (fst (RateEstimateInertia ps)) (fst (RateEstimate ps)))
             (preExp_gasUsed ps))
          (fst (RateEstimateInertia ps) + timePassed)"

definition preExp_pool :: "i64 \<Rightarrow> i64 \<Rightarrow> u64 \<Rightarrow> u64 \<Rightarrow> u64 \<times> i64" where
  "preExp_pool poolMax gasPool speedLimit timePassed =
     (if timePassed > sdiv64 (poolMax - gasPool) speedLimit then
        (poolMax - udiv ((poolMax - gasPool) * (poolMax - gasPool))
                        (SaturatingUMul (2 * speedLimit) timePassed),
         poolMax)
      else (gasPool + udiv (timePassed * speedLimit) 2, gasPool + speedLimit * timePassed))"

definition preExp_exp ::
  "'f arbmath_kit \<Rightarrow> u64 \<Rightarrow> u64 \<Rightarrow> u64 \<Rightarrow> i64 \<Rightarrow> Bips \<Rightarrow> Bips \<Rightarrow> u64 \<Rightarrow> u64 \<Rightarrow> Bips" where
  "preExp_exp K averagePool rate speedLimit poolMax poolTarget poolWeight arbosVersion timePassed =
     sdiv64
       (((if arbosVersion < 3 \<and>
             sint (PercentToBips 200) <
             sint (BigFloatUint64 K (BigAddFloat K
                (BigFloatMulByUint K
                   (if averagePool < 2 * IntMulByBips poolMax poolTarget
                    then UfracToBigFloat K (2 * IntMulByBips poolMax poolTarget - averagePool)
                           (IntMulByBips poolMax poolTarget)
                    else UfracToBigFloat K 0 1)
                   poolWeight)
                (BigFloatMulByUint K (UfracToBigFloat K rate speedLimit) (OneInBips - poolWeight))))
          then PercentToBips 200
          else BigFloatUint64 K (BigAddFloat K
                (BigFloatMulByUint K
                   (if averagePool < 2 * IntMulByBips poolMax poolTarget
                    then UfracToBigFloat K (2 * IntMulByBips poolMax poolTarget - averagePool)
                           (IntMulByBips poolMax poolTarget)
                    else UfracToBigFloat K 0 1)
                   poolWeight)
                (BigFloatMulByUint K (UfracToBigFloat K rate speedLimit) (OneInBips - poolWeight)))) -
         OneInBips) * timePassed)
       120"

definition preExp_clamp :: "int \<Rightarrow> int \<Rightarrow> int \<Rightarrow> int" where
  "preExp_clamp price minPrice maxPrice =
     (if BigGreaterThan (if BigLessThan price minPrice then minPrice else price) maxPrice
      then maxPrice
      else (if BigLessThan price minPrice then minPrice else price))"

section \<open>The exponential update in the specification's words\<close>

text \<open>
  Section 4.E of the specification, over the unbounded integers: the backlog is discharged
  by \<open>speed_limit \<times> time_passed\<close>, stopping at zero, and the base fee is the minimum base fee
  when the backlog is within tolerance, and the minimum scaled by the exponential of the
  excess otherwise.  These two definitions follow the specification, not the source; the
  claim about the branch for version 4 compares the source with them.
\<close>

definition discharged_backlog :: "int \<Rightarrow> int \<Rightarrow> int \<Rightarrow> int" where
  "discharged_backlog backlog speed_limit time_passed = max 0 (backlog - speed_limit * time_passed)"

definition exp_base_fee :: "(Bips \<Rightarrow> Bips) \<Rightarrow> int \<Rightarrow> int \<Rightarrow> int \<Rightarrow> int \<Rightarrow> int \<Rightarrow> int" where
  "exp_base_fee approx_exp_bips min_base_fee backlog tolerance inertia speed_limit =
     (if backlog > tolerance * speed_limit
      then BigMulByBips min_base_fee (approx_exp_bips (word_of_int
             ((backlog - tolerance * speed_limit) * 10000 div (inertia * speed_limit))))
      else min_base_fee)"

section \<open>Auxiliary functions of the proofs\<close>

text \<open>
  The base fee of the branch for version 4 as a function of the discharged backlog
  (lines 66 to 71), with the two products of line 67 and 69 as arguments.
\<close>

definition exp_fee :: "'f arbmath_kit \<Rightarrow> int \<Rightarrow> u64 \<Rightarrow> u64 \<Rightarrow> u64 \<Rightarrow> int" where
  "exp_fee K minBaseFee T D B =
     (if B > T then BigMulByBips minBaseFee (ApproxExpBasisPoints K (sdiv64 (NaturalToBips (B - T)) D))
      else minBaseFee)"

text \<open>The reference exponential on the integers: one Horner step, and the four of them.\<close>

definition quartic_step :: "int \<Rightarrow> int \<Rightarrow> int \<Rightarrow> int" where
  "quartic_step r n k =
     10000 + (if 18446744073709551616 \<le> r * n then 18446744073709551615 else r * n) div k"

definition quartic_int :: "int \<Rightarrow> int" where
  "quartic_int n =
     quartic_step (quartic_step (quartic_step (10000 + n div 4) n 30000) n 20000) n 10000"

section \<open>Basic facts\<close>

lemmas getter_defs = GasPool_preExp_def GasPoolLastBlock_def GasPoolSeconds_def GasPoolTarget_def
  GasPoolWeight_def RateEstimate_def RateEstimateInertia_def SpeedLimitPerSecond_def
  MaxPerBlockGasLimit_def BaseFeeWei_def MinBaseFeeWei_def GasBacklog_def PricingInertia_def
  BacklogTolerance_def

lemmas setter_defs = SetGasPool_preExp_def SetGasPoolLastBlock_def SetRateEstimate_def
  SetBaseFeeWei_def SetGasBacklog_def

lemma load_ok: "failing ps = [] \<Longrightarrow> load s v ps = (v, None)"
  by (simp add: load_def)

lemma store_ok: "failing ps = [] \<Longrightarrow> store s ps' ps = (ps', None)"
  by (simp add: store_def)

lemma uint64_bounds: "0 \<le> uint (w :: 64 word)" "uint (w :: 64 word) < 18446744073709551616"
  using uint_lt2p [of w] by simp_all

lemma sint_uint64:
  "sint (w :: 64 word) =
     (if uint w < 9223372036854775808 then uint w else uint w - 18446744073709551616)"
proof -
  have "sint w = take_bit 64 (uint w + 2 ^ 63) - 2 ^ 63"
    by (simp add: sint_uint signed_take_bit_eq_take_bit_shift)
  also have "\<dots> = (uint w + 2 ^ 63) mod 2 ^ 64 - 2 ^ 63"
    by (simp add: take_bit_eq_mod)
  finally have *: "sint w = (uint w + 2 ^ 63) mod 2 ^ 64 - 2 ^ 63" .
  show ?thesis
  proof (cases "uint w < 9223372036854775808")
    case True
    then have "(uint w + 2 ^ 63) mod 2 ^ 64 = uint w + 2 ^ 63"
      using uint64_bounds [of w] by (intro mod_pos_pos_trivial) simp_all
    with * True show ?thesis by simp
  next
    case False
    have "(uint w + 2 ^ 63) mod 2 ^ 64 = (uint w + 2 ^ 63 - 2 ^ 64) mod 2 ^ 64"
      by (metis mod_diff_right_eq mod_self diff_zero)
    also have "\<dots> = uint w + 2 ^ 63 - 2 ^ 64"
      using False uint64_bounds [of w] by (intro mod_pos_pos_trivial) simp_all
    finally show ?thesis using * False by simp
  qed
qed

lemma sint_word_of_int64:
  "- 9223372036854775808 \<le> k \<Longrightarrow> k < 9223372036854775808 \<Longrightarrow>
     sint (word_of_int k :: 64 word) = k"
  by (simp add: sint_sbintrunc' signed_take_bit_int_eq_self)

lemma uint_word_of_int64:
  "0 \<le> k \<Longrightarrow> k < 18446744073709551616 \<Longrightarrow> uint (word_of_int k :: 64 word) = k"
  by (simp add: uint_word_of_int)

subsection \<open>Saturating arithmetic and signed division\<close>

lemma sint_MaxInt64: "sint MaxInt64 = 9223372036854775807"
  by (simp add: MaxInt64_def)

lemma sint_MinInt64: "sint MinInt64 = - 9223372036854775808"
  by (simp add: MinInt64_def)

lemma sint_range64: "- 9223372036854775808 \<le> sint (w :: 64 word)" "sint (w :: 64 word) < 9223372036854775808"
  using sint_ge [of w] sint_lt [of w] by simp_all

lemma word_of_int_sint64: "word_of_int (sint (w :: 64 word)) = w"
  by simp

lemma sint_pos_uint:
  assumes "0 < sint (s :: 64 word)"
  shows "sint s = uint s" "0 < uint s" "uint s < 9223372036854775808"
  using assms uint64_bounds [of s] by (auto simp: sint_uint64 split: if_splits)

lemma SaturatingSub_sint:
  "sint (SaturatingSub a b) = max (- 9223372036854775808) (min (sint a - sint b) 9223372036854775807)"
  by (simp add: SaturatingSub_def Let_def sint_MaxInt64 sint_MinInt64 sint_word_diff
      signed_take_bit_int_eq_self)

lemma SaturatingAdd_sint:
  "sint (SaturatingAdd a b) = max (- 9223372036854775808) (min (sint a + sint b) 9223372036854775807)"
  by (simp add: SaturatingAdd_def Let_def sint_MaxInt64 sint_MinInt64 sint_word_add
      signed_take_bit_int_eq_self)

lemma SaturatingMul_sint:
  "sint (SaturatingMul a b) = max (- 9223372036854775808) (min (sint a * sint b) 9223372036854775807)"
  by (simp add: SaturatingMul_def Let_def sint_MaxInt64 sint_MinInt64 sint_word_mult
      signed_take_bit_int_eq_self)

lemma SaturatingUCast_uint: "uint (SaturatingUCast v) = max 0 (sint v)"
  using uint64_bounds [of v] by (simp add: SaturatingUCast_def sint_uint64 max_def)

lemma SaturatingUMul_uint:
  "uint (SaturatingUMul a b) =
     (if 18446744073709551616 \<le> uint a * uint b then 18446744073709551615 else uint a * uint b)"
  using uint_mult_lem [of a b]
  by (auto simp: SaturatingUMul_def MaxUint64_def)

lemma discharge_uint:
  "uint (SaturatingUCast (SaturatingSub b g)) = max 0 (min (sint b - sint g) 9223372036854775807)"
  by (simp add: SaturatingUCast_uint SaturatingSub_sint)

lemma discharged_range:
  "uint (SaturatingUCast (SaturatingSub b g)) < 9223372036854775808"
  unfolding discharge_uint by linarith


lemma sdiv64_nonneg:
  assumes "0 \<le> sint a" "0 < sint b"
  shows "sint (sdiv64 a b) = sint a div sint b"
proof -
  have eq: "sint a sdiv sint b = sint a div sint b"
    using assms by (cases "sint a = 0") (simp_all add: signed_divide_int_def sgn_if)
  have "0 \<le> sint a div sint b" using assms by (simp add: pos_imp_zdiv_nonneg_iff)
  moreover have "sint a div sint b \<le> sint a" using zdiv_mono2 [of "sint a" 1 "sint b"] assms by simp
  ultimately show ?thesis
    using sint_range64 [of a] by (simp add: sdiv64_def eq sint_word_of_int64)
qed

lemma NaturalToBips_sint:
  "0 \<le> sint e \<Longrightarrow> sint (NaturalToBips e) = min (sint e * 10000) 9223372036854775807"
  by (simp add: NaturalToBips_def SaturatingMul_sint OneInBips_def)


lemma BigMulByBips_ge:
  assumes "0 \<le> m" "10000 \<le> sint a"
  shows "m \<le> BigMulByBips m a"
proof -
  have "m * 10000 \<le> m * sint a"
    using assms by (simp add: mult_left_mono)
  then have "m * 10000 div 10000 \<le> m * sint a div 10000"
    by (rule zdiv_mono1) simp
  then show ?thesis
    by (simp add: BigMulByBips_def OneInBips_def)
qed

lemma MinInt_le: "sint (MinInt v c) \<le> sint c"
  by (simp add: MinInt_def)

lemma MinInt_diff:
  "sint c - sint v < 9223372036854775808 \<Longrightarrow> sint c - sint (MinInt v c) < 9223372036854775808"
  by (simp add: MinInt_def)

subsection \<open>The pre-exponential update, composed of its parts\<close>

lemma UpdatePricingModel_preExp_unfold:
  "UpdatePricingModel_preExp K l2BaseFee timePassed arbosVersion debug ps =
     (if fst (RateEstimateInertia ps) + timePassed = 0 then Inl IntegerDivideByZero
      else if fst (SpeedLimitPerSecond (fst (SetRateEstimate (preExp_rate timePassed ps) ps))) = 0
      then Inl IntegerDivideByZero
      else if timePassed > sdiv64 (fst (GasPoolMax ps) - MinInt (fst (GasPool_preExp ps)) (fst (GasPoolMax ps)))
                 (fst (SpeedLimitPerSecond (fst (SetRateEstimate (preExp_rate timePassed ps) ps)))) \<and>
              SaturatingUMul (2 * fst (SpeedLimitPerSecond (fst (SetRateEstimate (preExp_rate timePassed ps) ps)))) timePassed = 0
      then Inl IntegerDivideByZero
      else Inr (fst (SetGasPoolLastBlock
        (snd (preExp_pool (fst (GasPoolMax ps)) (MinInt (fst (GasPool_preExp ps)) (fst (GasPoolMax ps)))
               (fst (SpeedLimitPerSecond (fst (SetRateEstimate (preExp_rate timePassed ps) ps)))) timePassed))
        (fst (SetGasPool_preExp
          (snd (preExp_pool (fst (GasPoolMax ps)) (MinInt (fst (GasPool_preExp ps)) (fst (GasPoolMax ps)))
               (fst (SpeedLimitPerSecond (fst (SetRateEstimate (preExp_rate timePassed ps) ps)))) timePassed))
          (fst (SetBaseFeeWei
            (preExp_clamp
               (BigMulByBips l2BaseFee (ApproxExpBasisPoints K
                  (preExp_exp K
                     (fst (preExp_pool (fst (GasPoolMax ps)) (MinInt (fst (GasPool_preExp ps)) (fst (GasPoolMax ps)))
                        (fst (SpeedLimitPerSecond (fst (SetRateEstimate (preExp_rate timePassed ps) ps)))) timePassed))
                     (preExp_rate timePassed ps)
                     (fst (SpeedLimitPerSecond (fst (SetRateEstimate (preExp_rate timePassed ps) ps))))
                     (fst (GasPoolMax ps))
                     (fst (GasPoolTarget (fst (SetRateEstimate (preExp_rate timePassed ps) ps))))
                     (fst (GasPoolWeight (fst (SetRateEstimate (preExp_rate timePassed ps) ps))))
                     arbosVersion timePassed)))
               (fst (MinBaseFeeWei (fst (SetRateEstimate (preExp_rate timePassed ps) ps))))
               (BigMulByInt l2BaseFee ElasticityMultiplier))
            (fst (SetRateEstimate (preExp_rate timePassed ps) ps)))))))))"
  unfolding UpdatePricingModel_preExp_def preExp_rate_def preExp_gasUsed_def preExp_pool_def
    preExp_exp_def preExp_clamp_def Let_def case_prod_beta
  by (simp only: fst_conv snd_conv if_distrib [of fst] if_distrib [of snd] cong: if_cong)

lemma baseFee_after:
  "Store BaseFeeSlot \<notin> set (failing ps) \<Longrightarrow>
   baseFeeWei (fst (SetGasPoolLastBlock n (fst (SetGasPool_preExp m (fst (SetBaseFeeWei p ps)))))) = p"
  by (simp add: setter_defs store_def)

lemma failing_SetRateEstimate: "failing (fst (SetRateEstimate r ps)) = failing ps"
  by (simp add: setter_defs store_def)

lemma preExp_clamp_le: "preExp_clamp price minPrice maxPrice \<le> maxPrice"
  by (simp add: preExp_clamp_def BigGreaterThan_def)

lemma preExp_clamp_ge: "minPrice \<le> maxPrice \<Longrightarrow> minPrice \<le> preExp_clamp price minPrice maxPrice"
  by (simp add: preExp_clamp_def BigGreaterThan_def BigLessThan_def)

lemma preExp_healthy:
  assumes "failing ps = []"
  shows "UpdatePricingModel_preExp K l2BaseFee timePassed arbosVersion debug ps =
     (if rateEstimateInertia ps + timePassed = 0 then Inl IntegerDivideByZero
      else if speedLimitPerSecond ps = 0 then Inl IntegerDivideByZero
      else if timePassed > sdiv64 (fst (GasPoolMax ps) - MinInt (gasPool_preExp ps) (fst (GasPoolMax ps)))
                 (speedLimitPerSecond ps) \<and>
              SaturatingUMul (2 * speedLimitPerSecond ps) timePassed = 0
      then Inl IntegerDivideByZero
      else Inr (ps\<lparr>rateEstimate := preExp_rate timePassed ps,
        baseFeeWei := preExp_clamp
               (BigMulByBips l2BaseFee (ApproxExpBasisPoints K
                  (preExp_exp K
                     (fst (preExp_pool (fst (GasPoolMax ps)) (MinInt (gasPool_preExp ps) (fst (GasPoolMax ps)))
                        (speedLimitPerSecond ps) timePassed))
                     (preExp_rate timePassed ps)
                     (speedLimitPerSecond ps)
                     (fst (GasPoolMax ps))
                     (gasPoolTarget ps)
                     (gasPoolWeight ps)
                     arbosVersion timePassed)))
               (minBaseFeeWei ps)
               (l2BaseFee * 2),
        gasPool_preExp := snd (preExp_pool (fst (GasPoolMax ps))
               (MinInt (gasPool_preExp ps) (fst (GasPoolMax ps))) (speedLimitPerSecond ps) timePassed),
        gasPoolLastBlock := snd (preExp_pool (fst (GasPoolMax ps))
               (MinInt (gasPool_preExp ps) (fst (GasPoolMax ps))) (speedLimitPerSecond ps) timePassed)\<rparr>))"
  unfolding UpdatePricingModel_preExp_unfold
  using assms
  by (simp add: getter_defs setter_defs load_def store_def BigMulByInt_def ElasticityMultiplier_def)

lemma GasPoolMax_upd:
  "fst (GasPoolMax (ps\<lparr>rateEstimate := r, baseFeeWei := p, gasPool_preExp := g, gasPoolLastBlock := h\<rparr>))
     = fst (GasPoolMax ps)"
  by (simp add: GasPoolMax_def getter_defs load_def Let_def split: prod.splits)

lemma preExp_pool_bound:
  assumes s: "0 < sint s" and le: "sint g \<le> sint pm"
    and d: "sint pm - sint g < 9223372036854775808"
  shows "sint (snd (preExp_pool pm g s t)) \<le> sint pm"
proof (cases "t > sdiv64 (pm - g) s")
  case True
  then show ?thesis by (simp add: preExp_pool_def)
next
  case False
  define dd where "dd = sint pm - sint g"
  define S where "S = uint s"
  define n where "n = uint t"
  have dd: "0 \<le> dd" "dd < 9223372036854775808"
    using le d by (simp_all add: dd_def)
  have S: "sint s = S" "0 < S" "S < 9223372036854775808"
    using sint_pos_uint [OF s] by (simp_all add: S_def)
  have n0: "0 \<le> n" by (simp add: n_def)
  have sd: "sint (pm - g) = dd"
    using dd by (simp add: sint_word_diff signed_take_bit_int_eq_self dd_def)
  have sq: "sint (sdiv64 (pm - g) s) = dd div S"
    using sdiv64_nonneg [of "pm - g" s] dd S sd by simp
  have q0: "0 \<le> dd div S"
    using dd S by (simp add: pos_imp_zdiv_nonneg_iff)
  have uq: "uint (sdiv64 (pm - g) s) = dd div S"
    using sq q0 uint64_bounds [of "sdiv64 (pm - g) s"]
    by (auto simp: sint_uint64 split: if_splits)
  from False have "n \<le> dd div S"
    by (simp add: word_less_def uq n_def)
  then have "n * S \<le> dd div S * S"
    using S(2) by (simp add: mult_right_mono)
  also have "\<dots> \<le> dd"
  proof -
    have "dd div S * S + dd mod S = dd" by simp
    moreover have "0 \<le> dd mod S" using S(2) by simp
    ultimately show ?thesis by linarith
  qed
  finally have nS: "n * S \<le> dd" .
  have nS0: "0 \<le> n * S"
    using n0 S(2) by simp
  define P where "P = n * S"
  have P: "0 \<le> P" "P \<le> dd" using nS nS0 by (simp_all add: P_def)
  have "uint s * uint t < 2 ^ 64"
    using P dd by (simp add: P_def S_def n_def mult.commute)
  then have "uint (s * t) = P"
    using uint_mult_lem [of s t] by (simp add: P_def S_def n_def mult.commute)
  then have sp: "sint (s * t) = P"
    using P dd by (simp add: sint_uint64)
  have "sint (g + s * t) = sint g + P"
    using P dd sint_range64 [of g] sint_range64 [of pm]
    by (simp add: sint_word_add sp signed_take_bit_int_eq_self dd_def)
  then show ?thesis
    using False P by (simp add: preExp_pool_def dd_def)
qed

subsection \<open>The exponential update with a storage that answers\<close>

lemma exp_update_healthy:
  assumes "failing ps = []" "FirstExponentialPricingVersion \<le> arbosVersion"
  shows "UpdatePricingModel K l2BaseFee timePassed arbosVersion debug ps =
    (if SaturatingUCast (SaturatingSub (gasBacklog ps) (timePassed * speedLimitPerSecond ps))
          > backlogTolerance ps * speedLimitPerSecond ps
     then if pricingInertia ps * speedLimitPerSecond ps = 0 then Inl IntegerDivideByZero
          else Inr (ps\<lparr>gasBacklog :=
                       SaturatingUCast (SaturatingSub (gasBacklog ps) (timePassed * speedLimitPerSecond ps)),
                     baseFeeWei := BigMulByBips (minBaseFeeWei ps) (ApproxExpBasisPoints K
                       (sdiv64 (NaturalToBips
                          (SaturatingUCast (SaturatingSub (gasBacklog ps) (timePassed * speedLimitPerSecond ps))
                            - backlogTolerance ps * speedLimitPerSecond ps))
                          (pricingInertia ps * speedLimitPerSecond ps)))\<rparr>)
     else Inr (ps\<lparr>gasBacklog :=
                     SaturatingUCast (SaturatingSub (gasBacklog ps) (timePassed * speedLimitPerSecond ps)),
                   baseFeeWei := minBaseFeeWei ps\<rparr>))"
  using assms
  by (simp add: UpdatePricingModel_def AddToGasPool_def getter_defs setter_defs load_ok store_ok
      Let_def not_less [symmetric])

lemma exp_update_fee:
  assumes "failing ps = []" "FirstExponentialPricingVersion \<le> arbosVersion"
    and "pricingInertia ps * speedLimitPerSecond ps \<noteq> 0"
  shows "UpdatePricingModel K l2BaseFee timePassed arbosVersion debug ps =
    Inr (ps\<lparr>gasBacklog :=
              SaturatingUCast (SaturatingSub (gasBacklog ps) (timePassed * speedLimitPerSecond ps)),
            baseFeeWei := exp_fee K (minBaseFeeWei ps) (backlogTolerance ps * speedLimitPerSecond ps)
              (pricingInertia ps * speedLimitPerSecond ps)
              (SaturatingUCast (SaturatingSub (gasBacklog ps) (timePassed * speedLimitPerSecond ps)))\<rparr>)"
  using assms(3) by (simp add: exp_update_healthy [OF assms(1,2)] exp_fee_def)

lemma exponent_sint:
  assumes "T < B" "uint B < 9223372036854775808" "0 < sint D"
  shows "sint (sdiv64 (NaturalToBips (B - T)) D) =
           min ((uint B - uint T) * 10000) 9223372036854775807 div sint D"
proof -
  from assms(1) have le: "uint T \<le> uint B" "uint T < uint B"
    by (simp_all add: word_less_def)
  have uE: "uint (B - T) = uint B - uint T"
    using le uint_sub_lem [of T B] by simp
  have "uint (B - T) < 9223372036854775808"
    using uE assms(2) uint_ge_0 [of T] by linarith
  then have sE: "sint (B - T) = uint B - uint T"
    using uE by (simp add: sint_uint64)
  have E0: "0 \<le> sint (B - T)"
    using sE le by simp
  have sN: "sint (NaturalToBips (B - T)) = min ((uint B - uint T) * 10000) 9223372036854775807"
    using E0 by (simp add: NaturalToBips_sint sE)
  have N0: "0 \<le> sint (NaturalToBips (B - T))"
    using sN le by simp
  show ?thesis
    using sdiv64_nonneg [OF N0 assms(3)] sN by simp
qed

lemma exponent_nonneg:
  assumes "T < B" "uint B < 9223372036854775808" "0 < sint D"
  shows "0 \<le> sint (sdiv64 (NaturalToBips (B - T)) D)"
proof -
  from assms(1) have "uint T < uint B" by (simp add: word_less_def)
  then have "0 \<le> min ((uint B - uint T) * 10000) 9223372036854775807" by simp
  then show ?thesis
    unfolding exponent_sint [OF assms] using assms(3) by (simp add: pos_imp_zdiv_nonneg_iff)
qed


lemma exp_fee_floor:
  assumes mono: "\<forall>x y. sint x \<le> sint y \<longrightarrow> sint (ApproxExpBasisPoints K x) \<le> sint (ApproxExpBasisPoints K y)"
    and one: "ApproxExpBasisPoints K 0 = OneInBips"
    and "0 \<le> m" "uint B < 9223372036854775808" "0 < sint D"
  shows "m \<le> exp_fee K m T D B"
proof (cases "T < B")
  case False then show ?thesis by (simp add: exp_fee_def)
next
  case True
  have "sint (0 :: 64 word) \<le> sint (sdiv64 (NaturalToBips (B - T)) D)"
    using exponent_nonneg [OF True assms(4,5)] by simp
  with mono have "sint (ApproxExpBasisPoints K 0) \<le> sint (ApproxExpBasisPoints K (sdiv64 (NaturalToBips (B - T)) D))"
    by blast
  then have "10000 \<le> sint (ApproxExpBasisPoints K (sdiv64 (NaturalToBips (B - T)) D))"
    by (simp add: one OneInBips_def)
  with True assms(3) show ?thesis
    by (simp add: exp_fee_def BigMulByBips_ge)
qed


subsection \<open>The reference exponential is monotone\<close>

lemma quartic_step_bounds:
  assumes "0 \<le> r" "0 \<le> n" "10000 \<le> k"
  shows "10000 \<le> quartic_step r n k" "quartic_step r n k < 9223372036854775808"
proof -
  define p where "p = (if 18446744073709551616 \<le> r * n then 18446744073709551615 else r * n)"
  have p: "0 \<le> p" "p \<le> 18446744073709551615"
    using assms(1,2) by (auto simp: p_def)
  have "p div k \<le> p div 10000"
    using p(1) assms(3) by (intro zdiv_mono2) simp_all
  also have "\<dots> \<le> 18446744073709551615 div 10000"
    using p(2) by (intro zdiv_mono1) simp_all
  finally have "p div k \<le> 1844674407370955" by simp
  moreover have "0 \<le> p div k"
    using p(1) assms(3) by (simp add: pos_imp_zdiv_nonneg_iff)
  ultimately show "10000 \<le> quartic_step r n k" "quartic_step r n k < 9223372036854775808"
    by (simp_all add: quartic_step_def p_def [symmetric])
qed

lemma quartic_step_mono:
  assumes "0 \<le> r" "r \<le> r'" "0 \<le> n" "n \<le> n'" "0 < k"
  shows "quartic_step r n k \<le> quartic_step r' n' k"
proof -
  have le: "r * n \<le> r' * n'"
    using assms by (intro mult_mono) simp_all
  then have "(if 18446744073709551616 \<le> r * n then 18446744073709551615 else r * n)
      \<le> (if 18446744073709551616 \<le> r' * n' then 18446744073709551615 else r' * n')"
    by auto
  then show ?thesis
    using assms(5) by (simp add: quartic_step_def zdiv_mono1)
qed

lemma quartic_step_word:
  assumes "10000 \<le> uint k"
  shows "uint (OneInBips + udiv (SaturatingUMul r x) k) = quartic_step (uint r) (uint x) (uint k)"
proof -
  have d: "uint (udiv (SaturatingUMul r x) k) = quartic_step (uint r) (uint x) (uint k) - 10000"
    by (simp add: udiv_def uint_div_distrib SaturatingUMul_uint quartic_step_def)
  have "quartic_step (uint r) (uint x) (uint k) < 9223372036854775808"
    using assms by (intro quartic_step_bounds) simp_all
  then have "uint OneInBips + uint (udiv (SaturatingUMul r x) k) < 2 ^ 64"
    by (simp add: d OneInBips_def)
  then have "uint (OneInBips + udiv (SaturatingUMul r x) k)
      = uint OneInBips + uint (udiv (SaturatingUMul r x) k)"
    using uint_add_lem [of OneInBips "udiv (SaturatingUMul r x) k"] by simp
  then show ?thesis by (simp add: d OneInBips_def)
qed

lemma quartic_first_word:
  assumes "uint x \<le> 9223372036854775808"
  shows "uint (OneInBips + udiv x 4) = 10000 + uint x div 4"
proof -
  have "uint OneInBips + uint (udiv x 4) < 2 ^ 64"
    using assms by (simp add: udiv_def uint_div_distrib OneInBips_def)
  then have "uint (OneInBips + udiv x 4) = uint OneInBips + uint (udiv x 4)"
    using uint_add_lem [of OneInBips "udiv x 4"] by simp
  then show ?thesis by (simp add: udiv_def uint_div_distrib OneInBips_def)
qed

lemma HornerQuartic_uint:
  assumes "uint x \<le> 9223372036854775808"
  shows "uint (HornerQuartic x) = quartic_int (uint x)"
proof -
  have k: "uint (3 * OneInBips) = 30000" "uint (2 * OneInBips) = 20000"
      "uint (1 * OneInBips) = 10000"
    by (simp_all add: OneInBips_def)
  show ?thesis
    unfolding quartic_int_def HornerQuartic_def Let_def
    using quartic_step_word [of "1 * OneInBips"] quartic_step_word [of "2 * OneInBips"]
      quartic_step_word [of "3 * OneInBips"] quartic_first_word [OF assms]
    by (simp only: k)
qed

lemma quartic_int_bounds:
  assumes "0 \<le> n"
  shows "10000 \<le> quartic_int n" "quartic_int n < 9223372036854775808"
proof -
  have r1: "0 \<le> 10000 + n div 4"
    using assms by (simp add: pos_imp_zdiv_nonneg_iff add_nonneg_nonneg)
  have r2: "0 \<le> quartic_step (10000 + n div 4) n 30000"
    using quartic_step_bounds(1) [OF r1 assms, of 30000] by simp
  have r3: "0 \<le> quartic_step (quartic_step (10000 + n div 4) n 30000) n 20000"
    using quartic_step_bounds(1) [OF r2 assms, of 20000] by simp
  show "10000 \<le> quartic_int n" "quartic_int n < 9223372036854775808"
    unfolding quartic_int_def using quartic_step_bounds [OF r3 assms, of 10000] by simp_all
qed

lemma quartic_int_mono:
  assumes "0 \<le> n" "n \<le> n'"
  shows "quartic_int n \<le> quartic_int n'"
proof -
  have n': "0 \<le> n'" using assms by simp
  have r1: "0 \<le> 10000 + n div 4" "10000 + n div 4 \<le> 10000 + n' div 4"
    using assms by (simp_all add: pos_imp_zdiv_nonneg_iff add_nonneg_nonneg zdiv_mono1)
  have r2: "0 \<le> quartic_step (10000 + n div 4) n 30000"
    using quartic_step_bounds(1) [OF r1(1) assms(1), of 30000] by simp
  have m2: "quartic_step (10000 + n div 4) n 30000 \<le> quartic_step (10000 + n' div 4) n' 30000"
    by (rule quartic_step_mono [OF r1 assms]) simp
  have r3: "0 \<le> quartic_step (quartic_step (10000 + n div 4) n 30000) n 20000"
    using quartic_step_bounds(1) [OF r2 assms(1), of 20000] by simp
  have m3: "quartic_step (quartic_step (10000 + n div 4) n 30000) n 20000
      \<le> quartic_step (quartic_step (10000 + n' div 4) n' 30000) n' 20000"
    by (rule quartic_step_mono [OF r2 m2 assms]) simp
  show ?thesis
    unfolding quartic_int_def by (rule quartic_step_mono [OF r3 m3 assms]) simp
qed

lemma ApproxExpQuartic_sint:
  "sint (ApproxExpQuartic v) =
     (if sint v < 0 then 100000000 div quartic_int (- sint v) else quartic_int (sint v))"
proof (cases "sint v < 0")
  case False
  then have sv: "sint v = uint v" "uint v < 9223372036854775808"
    using uint64_bounds [of v] by (auto simp: sint_uint64 split: if_splits)
  have u: "uint v \<le> 9223372036854775808" using sv by simp
  have q: "quartic_int (uint v) < 9223372036854775808"
    by (rule quartic_int_bounds) simp
  show ?thesis
    using False q
    by (simp add: ApproxExpQuartic_def Let_def SaturatingCast_def HornerQuartic_uint [OF u] sv(1)
        sint_uint64 [of "HornerQuartic v"])
next
  case True
  then have uv: "9223372036854775808 \<le> uint v" "sint v = uint v - 18446744073709551616"
    by (auto simp: sint_uint64 split: if_splits)
  have "uint (- v) = (- uint v) mod 18446744073709551616"
    by (simp add: uint_word_ariths)
  also have "\<dots> = (18446744073709551616 - uint v) mod 18446744073709551616"
    using mod_add_self1 [of 18446744073709551616 "- uint v"] by simp
  also have "\<dots> = 18446744073709551616 - uint v"
    using uv(1) uint64_bounds [of v] by (intro mod_pos_pos_trivial) simp_all
  finally have un: "uint (- v) = - sint v"
    using uv(2) by simp
  have u: "uint (- v) \<le> 9223372036854775808"
    using un uv by simp
  have n0: "0 \<le> - sint v" using True by simp
  note qb = quartic_int_bounds [OF n0]
  have "100000000 div quartic_int (- sint v) \<le> 100000000 div 10000"
    using qb(1) by (intro zdiv_mono2) simp_all
  moreover have "0 \<le> 100000000 div quartic_int (- sint v)"
    using qb(1) by (simp add: pos_imp_zdiv_nonneg_iff)
  ultimately have d: "100000000 div quartic_int (- sint v) < 9223372036854775808"
    by simp
  have "uint (udiv (OneInBips * OneInBips) (HornerQuartic (- v)))
      = 100000000 div quartic_int (- sint v)"
    unfolding udiv_def uint_div_distrib HornerQuartic_uint [OF u] un
    by (simp add: OneInBips_def)
  then show ?thesis
    using True d
    by (simp add: ApproxExpQuartic_def Let_def SaturatingCast_def sint_uint64 [of "udiv _ _"])
qed

lemma ApproxExpQuartic_mono:
  assumes "sint x \<le> sint y"
  shows "sint (ApproxExpQuartic x) \<le> sint (ApproxExpQuartic y)"
proof -
  consider "0 \<le> sint x" | "sint x < 0" "0 \<le> sint y" | "sint y < 0" using assms by linarith
  then show ?thesis
  proof cases
    case 1
    then show ?thesis using assms by (simp add: ApproxExpQuartic_sint quartic_int_mono)
  next
    case 2
    have "100000000 div quartic_int (- sint x) \<le> 100000000 div 10000"
      using quartic_int_bounds(1) [of "- sint x"] 2(1) by (intro zdiv_mono2) simp_all
    also have "\<dots> \<le> quartic_int (sint y)"
      using quartic_int_bounds(1) [OF 2(2)] by simp
    finally show ?thesis using 2 by (simp add: ApproxExpQuartic_sint)
  next
    case 3
    then have x: "sint x < 0" using assms by simp
    have "quartic_int (- sint y) \<le> quartic_int (- sint x)"
      using 3 assms by (intro quartic_int_mono) simp_all
    moreover have "0 < quartic_int (- sint y)"
      using quartic_int_bounds(1) [of "- sint y"] 3 by simp
    ultimately have "100000000 div quartic_int (- sint x) \<le> 100000000 div quartic_int (- sint y)"
      by (intro zdiv_mono2) simp_all
    then show ?thesis using 3 x by (simp add: ApproxExpQuartic_sint)
  qed
qed

lemma ApproxExpQuartic_zero: "ApproxExpQuartic 0 = OneInBips"
  by code_simp

subsection \<open>An idle update, the traps and the failing writes\<close>

lemma same_state:
  "\<lbrakk>rateEstimate ps = r; baseFeeWei ps = p; gasPool_preExp ps = g; gasPoolLastBlock ps = g\<rbrakk>
   \<Longrightarrow> ps\<lparr>rateEstimate := r, baseFeeWei := p, gasPool_preExp := g, gasPoolLastBlock := g\<rparr> = ps"
  by (cases ps) auto

lemma same_state_exp:
  "\<lbrakk>gasBacklog ps = b; baseFeeWei ps = p\<rbrakk> \<Longrightarrow> ps\<lparr>gasBacklog := b, baseFeeWei := p\<rparr> = ps"
  by (cases ps) auto

lemma sdiv64_zero: "sdiv64 0 b = 0"
  by (simp add: sdiv64_def)

lemma preExp_pool_idle: "s \<noteq> 0 \<Longrightarrow> preExp_pool pm pm s 0 = (pm, pm)"
  by (simp add: preExp_pool_def sdiv64_zero udiv_def)

lemma preExp_exp_idle: "preExp_exp K a r s pm pt pw v 0 = 0"
  by (simp add: preExp_exp_def sdiv64_zero)

lemma MinInt_same: "MinInt c c = c"
  by (simp add: MinInt_def)

lemma preExp_clamp_id: "mn \<le> p \<Longrightarrow> 0 \<le> p \<Longrightarrow> preExp_clamp p mn (p * 2) = p"
  by (simp add: preExp_clamp_def BigLessThan_def BigGreaterThan_def)

lemma BigMulByBips_one: "BigMulByBips p OneInBips = p"
  by (simp add: BigMulByBips_def OneInBips_def)

lemma SaturatingUAdd_zero: "SaturatingUAdd a 0 = a"
  using uint64_bounds [of a] by (simp add: SaturatingUAdd_def)

lemma rate_idle:
  assumes "i \<noteq> 0" "uint i * uint s < 2 ^ 64"
  shows "udiv (SaturatingUAdd (SaturatingUMul i s) 0) (i + 0) = s"
proof -
  have "uint i \<noteq> 0" using assms(1) by (simp add: uint_0_iff)
  then have i: "0 < uint i" using uint_ge_0 [of i] by linarith
  have m: "uint (i * s) = uint i * uint s"
    using assms(2) uint_mult_lem [of i s] by simp
  have "uint (udiv (i * s) i) = uint s"
    using i by (simp add: udiv_def uint_div_distrib m)
  then have "udiv (i * s) i = s"
    by (simp add: word_uint_eq_iff)
  then show ?thesis
    using assms(2) by (simp add: SaturatingUAdd_zero SaturatingUMul_def)
qed

lemma SaturatingUMul_eq_0: "SaturatingUMul a t = 0 \<longleftrightarrow> a = 0 \<or> t = 0"
proof (cases "18446744073709551616 \<le> uint a * uint t")
  case True
  then have "a \<noteq> 0" "t \<noteq> 0" by auto
  with True show ?thesis by (simp add: SaturatingUMul_def MaxUint64_def)
next
  case False
  then have "uint (a * t) = uint a * uint t"
    using uint_mult_lem [of a t] by simp
  then have "a * t = 0 \<longleftrightarrow> a = 0 \<or> t = 0"
    by (metis mult_eq_0_iff uint_0_iff)
  with False show ?thesis by (simp add: SaturatingUMul_def)
qed

lemma word_less_nonzero: "(x :: 64 word) < t \<Longrightarrow> t \<noteq> 0"
  by (auto simp: word_less_def)

lemma AddToGasPool_healthy:
  assumes "failing ps = []"
  shows "AddToGasPool gas arbosVersion ps =
     (if arbosVersion < FirstExponentialPricingVersion
      then (ps\<lparr>gasPool_preExp := SaturatingAdd (gasPool_preExp ps) gas\<rparr>, None)
      else (ps\<lparr>gasBacklog := SaturatingUCast (SaturatingSub (gasBacklog ps) gas)\<rparr>, None))"
  using assms
  by (simp add: AddToGasPool_def AddToGasPool_preExp_def getter_defs setter_defs load_ok store_ok)

lemma AddToGasPool_keeps:
  "baseFeeWei (fst (AddToGasPool gas v ps)) = baseFeeWei ps"
  "failing (fst (AddToGasPool gas v ps)) = failing ps"
  by (simp_all add: AddToGasPool_def AddToGasPool_preExp_def getter_defs setter_defs load_def
      store_def split: prod.splits option.splits)

lemma SetBaseFeeWei_fails:
  "Store BaseFeeSlot \<in> set (failing ps) \<Longrightarrow> fst (SetBaseFeeWei p ps) = ps"
  by (simp add: setter_defs store_def)

lemma baseFee_kept:
  "baseFeeWei (fst (SetGasPoolLastBlock n (fst (SetGasPool_preExp m ps)))) = baseFeeWei ps"
  "baseFeeWei (fst (SetRateEstimate r ps)) = baseFeeWei ps"
  by (simp_all add: setter_defs store_def)

subsection \<open>A storage in which accesses fail\<close>

text \<open>
  The update reads with \<open>x, _ := ps.X()\<close> and writes with \<open>_ = ps.SetX(x)\<close>: a read that
  fails delivers 0, a write that fails leaves its slot, and neither error is looked at.
\<close>

lemma reads_after_SetRateEstimate:
  "fst (SpeedLimitPerSecond (fst (SetRateEstimate r ps))) = fst (SpeedLimitPerSecond ps)"
  by (simp add: getter_defs setter_defs load_def store_def)

lemma reads_after_AddToGasPool:
  "fst (PricingInertia (fst (AddToGasPool gas v ps))) = fst (PricingInertia ps)"
  "fst (MinBaseFeeWei (fst (AddToGasPool gas v ps))) = fst (MinBaseFeeWei ps)"
  "fst (BacklogTolerance (fst (AddToGasPool gas v ps))) = fst (BacklogTolerance ps)"
  by (simp_all add: AddToGasPool_def AddToGasPool_preExp_def getter_defs setter_defs load_def
      store_def split: prod.splits option.splits)

lemma AddToGasPool_fields:
  "rateEstimate (fst (AddToGasPool gas v ps)) = rateEstimate ps"
  "gasPoolLastBlock (fst (AddToGasPool gas v ps)) = gasPoolLastBlock ps"
  "FirstExponentialPricingVersion \<le> v \<Longrightarrow>
     gasPool_preExp (fst (AddToGasPool gas v ps)) = gasPool_preExp ps"
  "Store GasBacklogSlot \<in> set (failing ps) \<Longrightarrow>
     gasBacklog (fst (AddToGasPool gas v ps)) = gasBacklog ps"
  "FirstExponentialPricingVersion \<le> v \<Longrightarrow> Load GasBacklogSlot \<in> set (failing ps) \<Longrightarrow>
     fst (AddToGasPool gas v ps) = ps"
  by (simp_all add: AddToGasPool_def AddToGasPool_preExp_def getter_defs setter_defs load_def
      store_def not_less [symmetric] split: prod.splits option.splits)

lemma setters_fail:
  "Store RateEstimateSlot \<in> set (failing ps) \<Longrightarrow> fst (SetRateEstimate r ps) = ps"
  "Store GasPoolSlot \<in> set (failing ps) \<Longrightarrow> fst (SetGasPool_preExp g ps) = ps"
  "Store GasPoolLastBlockSlot \<in> set (failing ps) \<Longrightarrow> fst (SetGasPoolLastBlock g ps) = ps"
  by (simp_all add: setter_defs store_def)

lemma setters_keep:
  "failing (fst (SetBaseFeeWei p ps)) = failing ps"
  "failing (fst (SetGasPool_preExp g ps)) = failing ps"
  "failing (fst (SetGasPoolLastBlock g ps)) = failing ps"
  "rateEstimate (fst (SetBaseFeeWei p ps)) = rateEstimate ps"
  "rateEstimate (fst (SetGasPool_preExp g ps)) = rateEstimate ps"
  "rateEstimate (fst (SetGasPoolLastBlock g ps)) = rateEstimate ps"
  "gasPool_preExp (fst (SetRateEstimate r ps)) = gasPool_preExp ps"
  "gasPool_preExp (fst (SetBaseFeeWei p ps)) = gasPool_preExp ps"
  "gasPool_preExp (fst (SetGasPoolLastBlock g ps)) = gasPool_preExp ps"
  "gasPoolLastBlock (fst (SetRateEstimate r ps)) = gasPoolLastBlock ps"
  "gasPoolLastBlock (fst (SetBaseFeeWei p ps)) = gasPoolLastBlock ps"
  "gasPoolLastBlock (fst (SetGasPool_preExp g ps)) = gasPoolLastBlock ps"
  "gasBacklog (fst (SetRateEstimate r ps)) = gasBacklog ps"
  "gasBacklog (fst (SetBaseFeeWei p ps)) = gasBacklog ps"
  "gasBacklog (fst (SetGasPool_preExp g ps)) = gasBacklog ps"
  "gasBacklog (fst (SetGasPoolLastBlock g ps)) = gasBacklog ps"
  by (simp_all add: setter_defs store_def)

lemma preExp_Inr_shape:
  assumes "UpdatePricingModel_preExp K l2BaseFee timePassed arbosVersion debug ps = Inr ps'"
  obtains p n r where
    "ps' = fst (SetGasPoolLastBlock n (fst (SetGasPool_preExp n (fst (SetBaseFeeWei p
          (fst (SetRateEstimate r ps)))))))"
  using assms unfolding UpdatePricingModel_preExp_unfold by (auto split: if_splits)

lemma exp_Inr_shape:
  assumes "\<not> arbosVersion < FirstExponentialPricingVersion"
    and "UpdatePricingModel K l2BaseFee timePassed arbosVersion debug ps = Inr ps'"
  obtains p where
    "ps' = fst (SetBaseFeeWei p (fst (AddToGasPool
          (timePassed * fst (SpeedLimitPerSecond ps)) arbosVersion ps)))"
  using assms by (auto simp: UpdatePricingModel_def Let_def split: if_splits)

lemma update_Inr_cases:
  assumes "UpdatePricingModel K l2BaseFee timePassed arbosVersion debug ps = Inr ps'"
  obtains (preExp) p n r where "arbosVersion < FirstExponentialPricingVersion"
      "ps' = fst (SetGasPoolLastBlock n (fst (SetGasPool_preExp n (fst (SetBaseFeeWei p
          (fst (SetRateEstimate r ps)))))))"
  | (exp) p where "FirstExponentialPricingVersion \<le> arbosVersion"
      "ps' = fst (SetBaseFeeWei p (fst (AddToGasPool
          (timePassed * fst (SpeedLimitPerSecond ps)) arbosVersion ps)))"
proof (cases "arbosVersion < FirstExponentialPricingVersion")
  case True
  with assms have "UpdatePricingModel_preExp K l2BaseFee timePassed arbosVersion debug ps = Inr ps'"
    by (simp add: UpdatePricingModel_def)
  then show ?thesis using True preExp by (elim preExp_Inr_shape) blast
next
  case False
  then have "FirstExponentialPricingVersion \<le> arbosVersion" by simp
  then show ?thesis using exp_Inr_shape [OF False assms] exp by blast
qed

lemma update_keeps_failed_write:
  assumes "UpdatePricingModel K l2BaseFee timePassed arbosVersion debug ps = Inr ps'"
  shows "Store BaseFeeSlot \<in> set (failing ps) \<Longrightarrow> baseFeeWei ps' = baseFeeWei ps"
    and "Store RateEstimateSlot \<in> set (failing ps) \<Longrightarrow> rateEstimate ps' = rateEstimate ps"
    and "Store GasPoolSlot \<in> set (failing ps) \<Longrightarrow> gasPool_preExp ps' = gasPool_preExp ps"
    and "Store GasPoolLastBlockSlot \<in> set (failing ps) \<Longrightarrow>
           gasPoolLastBlock ps' = gasPoolLastBlock ps"
    and "Store GasBacklogSlot \<in> set (failing ps) \<Longrightarrow> gasBacklog ps' = gasBacklog ps"
proof -
  show "Store BaseFeeSlot \<in> set (failing ps) \<Longrightarrow> baseFeeWei ps' = baseFeeWei ps"
    using assms
    by (cases rule: update_Inr_cases)
      (simp_all add: baseFee_kept SetBaseFeeWei_fails failing_SetRateEstimate AddToGasPool_keeps)
  show "Store RateEstimateSlot \<in> set (failing ps) \<Longrightarrow> rateEstimate ps' = rateEstimate ps"
    using assms
    by (cases rule: update_Inr_cases) (simp_all add: setters_keep setters_fail AddToGasPool_fields)
  show "Store GasPoolSlot \<in> set (failing ps) \<Longrightarrow> gasPool_preExp ps' = gasPool_preExp ps"
    using assms
    by (cases rule: update_Inr_cases)
      (simp_all add: setters_keep setters_fail failing_SetRateEstimate AddToGasPool_fields)
  show "Store GasPoolLastBlockSlot \<in> set (failing ps) \<Longrightarrow>
           gasPoolLastBlock ps' = gasPoolLastBlock ps"
    using assms
    by (cases rule: update_Inr_cases)
      (simp_all add: setters_keep setters_fail failing_SetRateEstimate AddToGasPool_fields)
  show "Store GasBacklogSlot \<in> set (failing ps) \<Longrightarrow> gasBacklog ps' = gasBacklog ps"
    using assms
    by (cases rule: update_Inr_cases) (simp_all add: setters_keep AddToGasPool_fields)
qed

lemma update_returns_any_storage:
  assumes pre: "arbosVersion < FirstExponentialPricingVersion \<longrightarrow>
        fst (RateEstimateInertia ps) + timePassed \<noteq> 0 \<and> fst (SpeedLimitPerSecond ps) \<noteq> 0 \<and>
        2 * fst (SpeedLimitPerSecond ps) \<noteq> 0"
    and exp: "FirstExponentialPricingVersion \<le> arbosVersion \<longrightarrow>
        fst (PricingInertia ps) * fst (SpeedLimitPerSecond ps) \<noteq> 0"
  shows "\<exists>ps'. UpdatePricingModel K l2BaseFee timePassed arbosVersion debug ps = Inr ps'"
proof (cases "arbosVersion < FirstExponentialPricingVersion")
  case True
  with pre have p: "fst (RateEstimateInertia ps) + timePassed \<noteq> 0"
      "fst (SpeedLimitPerSecond ps) \<noteq> 0" "2 * fst (SpeedLimitPerSecond ps) \<noteq> 0"
    by simp_all
  have "\<And>x. \<not> (timePassed > x \<and>
      SaturatingUMul (2 * fst (SpeedLimitPerSecond ps)) timePassed = 0)"
    using p(3) word_less_nonzero [of _ timePassed] by (auto simp: SaturatingUMul_eq_0)
  then show ?thesis
    using True p
    by (simp add: UpdatePricingModel_def UpdatePricingModel_preExp_unfold
        reads_after_SetRateEstimate)
next
  case False
  then have "FirstExponentialPricingVersion \<le> arbosVersion" by simp
  with exp have "fst (PricingInertia ps) * fst (SpeedLimitPerSecond ps) \<noteq> 0" by simp
  then show ?thesis
    using False by (simp add: UpdatePricingModel_def Let_def reads_after_AddToGasPool)
qed

lemma backlog_read_fails:
  assumes "FirstExponentialPricingVersion \<le> arbosVersion"
    and "Load GasBacklogSlot \<in> set (failing ps)"
  shows "snd (AddToGasPool gas arbosVersion ps) = Some (StorageError (Load GasBacklogSlot))"
    and "UpdatePricingModel K l2BaseFee timePassed arbosVersion debug ps =
           Inr (fst (SetBaseFeeWei (fst (MinBaseFeeWei ps)) ps))"
proof -
  show "snd (AddToGasPool gas arbosVersion ps) = Some (StorageError (Load GasBacklogSlot))"
    using assms
    by (simp add: AddToGasPool_def getter_defs load_def not_less [symmetric])
  have "fst (GasBacklog ps) = 0"
    using assms(2) by (simp add: getter_defs load_def)
  then show "UpdatePricingModel K l2BaseFee timePassed arbosVersion debug ps =
           Inr (fst (SetBaseFeeWei (fst (MinBaseFeeWei ps)) ps))"
    using assms
    by (simp add: UpdatePricingModel_def Let_def AddToGasPool_fields not_less [symmetric])
qed

lemma speed_read_fails:
  assumes "arbosVersion < FirstExponentialPricingVersion"
    and "Load SpeedLimitSlot \<in> set (failing ps)"
  shows "UpdatePricingModel K l2BaseFee timePassed arbosVersion debug ps = Inl IntegerDivideByZero"
proof -
  have "fst (SpeedLimitPerSecond ps) = 0"
    using assms(2) by (simp add: getter_defs load_def)
  then show ?thesis
    using assms(1)
    by (simp add: UpdatePricingModel_def UpdatePricingModel_preExp_unfold
        reads_after_SetRateEstimate)
qed

lemma inertia_read_fails:
  assumes "FirstExponentialPricingVersion \<le> arbosVersion"
    and "Load PricingInertiaSlot \<in> set (failing ps)"
    and "fst (BacklogTolerance ps) * fst (SpeedLimitPerSecond ps)
          < fst (GasBacklog (fst (AddToGasPool (timePassed * fst (SpeedLimitPerSecond ps))
              arbosVersion ps)))"
  shows "UpdatePricingModel K l2BaseFee timePassed arbosVersion debug ps = Inl IntegerDivideByZero"
proof -
  have "fst (PricingInertia ps) = 0"
    using assms(2) by (simp add: getter_defs load_def)
  then show ?thesis
    using assms(1,3)
    by (simp add: UpdatePricingModel_def Let_def reads_after_AddToGasPool not_less [symmetric])
qed

subsection \<open>The states that the operations write\<close>

text \<open>
  Line 39 is the only write of the backlog, and what it stores went through the saturating
  cast: the backlog is below \<open>2^63\<close> at genesis and stays there.  Neither operation writes
  the pricing parameters or the minimum base fee.
\<close>

lemma InitialState_backlog: "uint (gasBacklog InitialState) < 9223372036854775808"
  by (simp add: InitialState_def)

lemma AddToGasPool_backlog_written:
  assumes "FirstExponentialPricingVersion \<le> v" "snd (AddToGasPool gas v ps) = None"
  shows "uint (gasBacklog (fst (AddToGasPool gas v ps))) < 9223372036854775808"
  using assms discharged_range [of "gasBacklog ps" gas]
  by (simp add: AddToGasPool_def getter_defs setter_defs load_def
      store_def not_less [symmetric] split: prod.splits option.splits if_splits)

lemma AddToGasPool_backlog_range:
  assumes "uint (gasBacklog ps) < 9223372036854775808"
  shows "uint (gasBacklog (fst (AddToGasPool gas v ps))) < 9223372036854775808"
  using assms discharged_range [of "gasBacklog ps" gas]
  by (simp add: AddToGasPool_def AddToGasPool_preExp_def getter_defs setter_defs load_def
      store_def split: prod.splits option.splits)

lemma update_backlog_range:
  assumes "UpdatePricingModel K l2BaseFee timePassed arbosVersion debug ps = Inr ps'"
    and "uint (gasBacklog ps) < 9223372036854775808"
  shows "uint (gasBacklog ps') < 9223372036854775808"
  using assms
  by (cases rule: update_Inr_cases) (simp_all add: setters_keep AddToGasPool_backlog_range)

lemma AddToGasPool_keeps_parameters:
  "pricingInertia (fst (AddToGasPool gas v ps)) = pricingInertia ps"
  "speedLimitPerSecond (fst (AddToGasPool gas v ps)) = speedLimitPerSecond ps"
  "backlogTolerance (fst (AddToGasPool gas v ps)) = backlogTolerance ps"
  "minBaseFeeWei (fst (AddToGasPool gas v ps)) = minBaseFeeWei ps"
  by (simp_all add: AddToGasPool_def AddToGasPool_preExp_def getter_defs setter_defs load_def
      store_def split: prod.splits option.splits)

lemma update_keeps_parameters:
  assumes "UpdatePricingModel K l2BaseFee timePassed arbosVersion debug ps = Inr ps'"
  shows "pricingInertia ps' = pricingInertia ps"
    and "speedLimitPerSecond ps' = speedLimitPerSecond ps"
    and "backlogTolerance ps' = backlogTolerance ps"
    and "minBaseFeeWei ps' = minBaseFeeWei ps"
    and "failing ps' = failing ps"
  using assms
  by (cases rule: update_Inr_cases;
      simp add: setter_defs store_def AddToGasPool_keeps_parameters AddToGasPool_keeps)+

subsection \<open>The gas pool when nothing overflows\<close>

text \<open>
  Lines 99 to 101 announce \<open>pool' = min(maximum, pool + speed * passed)\<close>.  With a speed
  limit that is positive as a signed value and a difference \<open>poolMax - gasPool\<close> that fits
  64 signed bits, lines 103 to 113 do cap the pool at its maximum.
\<close>

lemma gas_pool_capped_without_overflow:
  assumes healthy: "failing ps = []"
    and version: "arbosVersion < FirstExponentialPricingVersion"
    and ret: "UpdatePricingModel K l2BaseFee timePassed arbosVersion debug ps = Inr ps'"
    and speed: "0 < sint (speedLimitPerSecond ps)"
    and room: "sint (fst (GasPoolMax ps)) - sint (gasPool_preExp ps) < 2 ^ 63"
  shows "sint (gasPool_preExp ps') \<le> sint (fst (GasPoolMax ps')) \<and>
         gasPoolLastBlock ps' = gasPool_preExp ps'"
proof -
  from ret version
  have "UpdatePricingModel_preExp K l2BaseFee timePassed arbosVersion debug ps = Inr ps'"
    by (simp add: UpdatePricingModel_def)
  then obtain p r where ps': "ps' = ps\<lparr>rateEstimate := r, baseFeeWei := p,
      gasPool_preExp := snd (preExp_pool (fst (GasPoolMax ps))
               (MinInt (gasPool_preExp ps) (fst (GasPoolMax ps))) (speedLimitPerSecond ps) timePassed),
      gasPoolLastBlock := snd (preExp_pool (fst (GasPoolMax ps))
               (MinInt (gasPool_preExp ps) (fst (GasPoolMax ps))) (speedLimitPerSecond ps) timePassed)\<rparr>"
    unfolding preExp_healthy [OF healthy] by (auto split: if_splits)
  have room': "sint (fst (GasPoolMax ps)) - sint (gasPool_preExp ps) < 9223372036854775808"
    using room by simp
  show ?thesis
    unfolding ps' GasPoolMax_upd
    using preExp_pool_bound [OF speed MinInt_le MinInt_diff [OF room'], of timePassed]
    by simp
qed

section \<open>The claims\<close>

text \<open>
  C1.  With a storage that answers and version at least 4, provided the backlog is
  below \<open>2^63\<close>, \<open>speed_limit \<times> time_passed\<close> is below \<open>2^63\<close>,
  \<open>tolerance \<times> speed_limit\<close> is below \<open>2^64\<close>, \<open>inertia \<times> speed_limit\<close> is positive and below
  \<open>2^63\<close>, and the excess times 10 000 is below \<open>2^63\<close>: the update returns, the persisted
  backlog is the old one discharged by \<open>speed_limit \<times> time_passed\<close> and stopping at zero, and
  the persisted base fee is the minimum base fee when that backlog is at most
  \<open>tolerance \<times> speed_limit\<close>, and otherwise \<open>big_mul_by_bips\<close> of the minimum base fee and
  the exponential of \<open>excess \<times> 10 000 / (inertia \<times> speed_limit)\<close>.
\<close>

theorem exp_update_base_fee:
  assumes healthy: "failing ps = []"
    and version: "FirstExponentialPricingVersion \<le> arbosVersion"
    and backlog: "uint (gasBacklog ps) < 2 ^ 63"
    and refill: "uint timePassed * uint (speedLimitPerSecond ps) < 2 ^ 63"
    and tol: "uint (backlogTolerance ps) * uint (speedLimitPerSecond ps) < 2 ^ 64"
    and inertia: "0 < uint (pricingInertia ps) * uint (speedLimitPerSecond ps)"
      "uint (pricingInertia ps) * uint (speedLimitPerSecond ps) < 2 ^ 63"
    and excess: "(discharged_backlog (uint (gasBacklog ps)) (uint (speedLimitPerSecond ps)) (uint timePassed)
         - uint (backlogTolerance ps) * uint (speedLimitPerSecond ps)) * 10000 < 2 ^ 63"
  shows "UpdatePricingModel K l2BaseFee timePassed arbosVersion debug ps =
    Inr (ps\<lparr>gasBacklog := word_of_int
            (discharged_backlog (uint (gasBacklog ps)) (uint (speedLimitPerSecond ps)) (uint timePassed)),
          baseFeeWei := exp_base_fee (ApproxExpBasisPoints K) (minBaseFeeWei ps)
            (discharged_backlog (uint (gasBacklog ps)) (uint (speedLimitPerSecond ps)) (uint timePassed))
            (uint (backlogTolerance ps)) (uint (pricingInertia ps)) (uint (speedLimitPerSecond ps))\<rparr>)"
proof -
  define b where "b = gasBacklog ps"
  define s where "s = speedLimitPerSecond ps"
  define g where "g = timePassed * s"
  define Gi where "Gi = uint s * uint timePassed"
  define Ti where "Ti = uint (backlogTolerance ps) * uint s"
  define Di where "Di = uint (pricingInertia ps) * uint s"
  define B where "B = max 0 (uint b - Gi)"
  define B' where "B' = SaturatingUCast (SaturatingSub b g)"
  define T where "T = backlogTolerance ps * s"
  define D where "D = pricingInertia ps * s"
  have Gi: "0 \<le> Gi" "Gi < 9223372036854775808"
    using refill by (simp_all add: Gi_def s_def mult.commute)
  have Ti: "0 \<le> Ti" "Ti < 18446744073709551616"
    using tol by (simp_all add: Ti_def s_def)
  have Di: "0 < Di" "Di < 9223372036854775808"
    using inertia by (simp_all add: Di_def s_def)
  have bl: "uint b < 9223372036854775808"
    using backlog by (simp add: b_def)
  have ug: "uint g = Gi"
    using Gi uint_mult_lem [of timePassed s] by (simp add: g_def Gi_def mult.commute)
  have sg: "sint g = Gi"
    using Gi ug by (simp add: sint_uint64)
  have sb: "sint b = uint b"
    using bl by (simp add: sint_uint64)
  have "uint B' = max 0 (min (uint b - Gi) 9223372036854775807)"
    by (simp add: B'_def discharge_uint sg sb)
  also have "\<dots> = B"
    using bl Gi unfolding B_def by linarith
  finally have uB': "uint B' = B" .
  have B'w: "B' = word_of_int B"
    using uB' word_of_int_uint [of B'] by simp
  have B_lt: "B < 9223372036854775808" "0 \<le> B"
    using bl Gi unfolding B_def by linarith+
  have uT: "uint T = Ti"
    using Ti uint_mult_lem [of "backlogTolerance ps" s] by (simp add: T_def Ti_def)
  have uD: "uint D = Di"
    using Di uint_mult_lem [of "pricingInertia ps" s] by (simp add: D_def Di_def)
  have sD: "sint D = Di"
    using Di uD by (simp add: sint_uint64)
  have D0: "D \<noteq> 0"
    using Di uD by auto
  have gt: "B' > T \<longleftrightarrow> B > Ti"
    by (simp add: word_less_def uB' uT)
  have spec_B: "discharged_backlog (uint (gasBacklog ps)) (uint (speedLimitPerSecond ps)) (uint timePassed) = B"
    by (simp add: discharged_backlog_def B_def Gi_def b_def s_def)
  have upd: "UpdatePricingModel K l2BaseFee timePassed arbosVersion debug ps =
    (if B' > T then Inr (ps\<lparr>gasBacklog := B',
        baseFeeWei := BigMulByBips (minBaseFeeWei ps) (ApproxExpBasisPoints K
            (sdiv64 (NaturalToBips (B' - T)) D))\<rparr>)
     else Inr (ps\<lparr>gasBacklog := B', baseFeeWei := minBaseFeeWei ps\<rparr>))"
    using D0 by (simp add: exp_update_healthy [OF healthy version] B'_def T_def D_def g_def
        s_def b_def)
  show ?thesis
  proof (cases "B' > T")
    case False
    with gt upd show ?thesis
      unfolding spec_B by (simp add: exp_base_fee_def B'w Ti_def s_def)
  next
    case True
    then have le: "uint T \<le> uint B'" by (simp add: word_less_def)
    have uE: "uint (B' - T) = B - Ti"
      using le uint_sub_lem [of T B'] by (simp add: uB' uT)
    have sE: "sint (B' - T) = B - Ti"
      using uE B_lt Ti by (simp add: sint_uint64)
    have E0: "0 \<le> sint (B' - T)"
      using sE True gt by simp
    have ex: "(B - Ti) * 10000 < 9223372036854775808"
      using excess unfolding spec_B by (simp add: Ti_def s_def)
    have sN: "sint (NaturalToBips (B' - T)) = (B - Ti) * 10000"
      using ex E0 by (simp add: NaturalToBips_sint sE)
    have N0: "0 \<le> sint (NaturalToBips (B' - T))"
      using sN E0 sE by simp
    have "sint (sdiv64 (NaturalToBips (B' - T)) D) = (B - Ti) * 10000 div Di"
      using sdiv64_nonneg [OF N0, of D] Di sD sN by simp
    then have "sdiv64 (NaturalToBips (B' - T)) D = word_of_int ((B - Ti) * 10000 div Di)"
      using word_of_int_sint64 [of "sdiv64 (NaturalToBips (B' - T)) D"] by simp
    with True gt upd show ?thesis
      unfolding spec_B by (simp add: exp_base_fee_def B'w Ti_def Di_def s_def)
  qed
qed

theorem exp_update_base_fee_witness:
  "failing (InitialState\<lparr>gasBacklog := 100000000\<rparr>) = [] \<and>
   FirstExponentialPricingVersion \<le> 4 \<and>
   uint (gasBacklog (InitialState\<lparr>gasBacklog := 100000000\<rparr>)) < 2 ^ 63 \<and>
   uint (5 :: u64) * uint (speedLimitPerSecond (InitialState\<lparr>gasBacklog := 100000000\<rparr>)) < 2 ^ 63 \<and>
   uint (backlogTolerance (InitialState\<lparr>gasBacklog := 100000000\<rparr>)) *
     uint (speedLimitPerSecond (InitialState\<lparr>gasBacklog := 100000000\<rparr>)) < 2 ^ 64 \<and>
   0 < uint (pricingInertia (InitialState\<lparr>gasBacklog := 100000000\<rparr>)) *
     uint (speedLimitPerSecond (InitialState\<lparr>gasBacklog := 100000000\<rparr>)) \<and>
   uint (pricingInertia (InitialState\<lparr>gasBacklog := 100000000\<rparr>)) *
     uint (speedLimitPerSecond (InitialState\<lparr>gasBacklog := 100000000\<rparr>)) < 2 ^ 63 \<and>
   (discharged_backlog (uint (gasBacklog (InitialState\<lparr>gasBacklog := 100000000\<rparr>)))
        (uint (speedLimitPerSecond (InitialState\<lparr>gasBacklog := 100000000\<rparr>))) (uint (5 :: u64))
      - uint (backlogTolerance (InitialState\<lparr>gasBacklog := 100000000\<rparr>)) *
        uint (speedLimitPerSecond (InitialState\<lparr>gasBacklog := 100000000\<rparr>))) * 10000 < 2 ^ 63 \<and>
   UpdatePricingModel reference_kit 100000000 5 4 True (InitialState\<lparr>gasBacklog := 100000000\<rparr>) =
   Inr (InitialState\<lparr>gasBacklog := 95000000, baseFeeWei := 229690000\<rparr>)"
proof -
  let ?S = "InitialState\<lparr>gasBacklog := 100000000\<rparr>"
  have h1: "failing ?S = []" by code_simp
  have h2: "FirstExponentialPricingVersion \<le> 4" by code_simp
  have h3: "uint (gasBacklog ?S) < 2 ^ 63" by code_simp
  have h4: "uint (5 :: u64) * uint (speedLimitPerSecond ?S) < 2 ^ 63" by code_simp
  have h5: "uint (backlogTolerance ?S) * uint (speedLimitPerSecond ?S) < 2 ^ 64" by code_simp
  have h6: "0 < uint (pricingInertia ?S) * uint (speedLimitPerSecond ?S)" by code_simp
  have h7: "uint (pricingInertia ?S) * uint (speedLimitPerSecond ?S) < 2 ^ 63" by code_simp
  have h8: "(discharged_backlog (uint (gasBacklog ?S)) (uint (speedLimitPerSecond ?S)) (uint (5 :: u64))
         - uint (backlogTolerance ?S) * uint (speedLimitPerSecond ?S)) * 10000 < 2 ^ 63"
    by code_simp
  have e: "Inr (?S\<lparr>gasBacklog := word_of_int
            (discharged_backlog (uint (gasBacklog ?S)) (uint (speedLimitPerSecond ?S)) (uint (5 :: u64))),
          baseFeeWei := exp_base_fee (ApproxExpBasisPoints reference_kit) (minBaseFeeWei ?S)
            (discharged_backlog (uint (gasBacklog ?S)) (uint (speedLimitPerSecond ?S)) (uint (5 :: u64)))
            (uint (backlogTolerance ?S)) (uint (pricingInertia ?S)) (uint (speedLimitPerSecond ?S))\<rparr>)
      = (Inr (InitialState\<lparr>gasBacklog := 95000000, baseFeeWei := 229690000\<rparr>) :: panic + L2PricingState)"
    by code_simp
  from exp_update_base_fee [OF h1 h2 h3 h4 h5 h6 h7 h8, of reference_kit 100000000 True]
  have "UpdatePricingModel reference_kit 100000000 5 4 True ?S =
      Inr (InitialState\<lparr>gasBacklog := 95000000, baseFeeWei := 229690000\<rparr>)"
    by (simp only: e)
  with h1 h2 h3 h4 h5 h6 h7 h8 show ?thesis by blast
qed

text \<open>
  The claim as stated fails where a product wraps: with the default parameters, a backlog of
  100 000 000 and 18 446 744 073 710 seconds passed, \<open>timePassed * speedLimit\<close> is
  448 384 modulo \<open>2^64\<close>; the source discharges that much and raises the fee, where the
  specification's discharge empties the backlog and leaves the minimum base fee.
\<close>

theorem exp_update_base_fee_counterexample:
  "UpdatePricingModel reference_kit 100000000 18446744073710 4 True
     (InitialState\<lparr>gasBacklog := 100000000\<rparr>) =
     Inr (InitialState\<lparr>gasBacklog := 99551616, baseFeeWei := 240060000\<rparr>) \<and>
   discharged_backlog 100000000 1000000 18446744073710 = 0 \<and>
   exp_base_fee (ApproxExpBasisPoints reference_kit) 100000000 0 10 102 1000000 = 100000000"
proof -
  have "UpdatePricingModel reference_kit 100000000 18446744073710 4 True
     (InitialState\<lparr>gasBacklog := 100000000\<rparr>) =
     Inr (InitialState\<lparr>gasBacklog := 99551616, baseFeeWei := 240060000\<rparr>)"
    by code_simp
  moreover have "discharged_backlog 100000000 1000000 18446744073710 = 0"
    by (simp add: discharged_backlog_def)
  moreover have "exp_base_fee (ApproxExpBasisPoints reference_kit) 100000000 0 10 102 1000000 = 100000000"
    by (simp add: exp_base_fee_def)
  ultimately show ?thesis by blast
qed

text \<open>
  C2.  With a storage that answers, after an update that returns the base fee is
  at least the minimum base fee, provided that below version 4 the minimum base fee is at
  most twice the previous base fee, and that from version 4 on the minimum base fee is not
  negative, \<open>inertia \<times> speed_limit\<close> (the 64-bit product, read as signed) is not negative,
  and the exponential is non-decreasing and 10 000 at 0.
\<close>

theorem base_fee_floor:
  assumes healthy: "failing ps = []"
    and ret: "UpdatePricingModel K l2BaseFee timePassed arbosVersion debug ps = Inr ps'"
    and pre: "arbosVersion < FirstExponentialPricingVersion \<longrightarrow> minBaseFeeWei ps \<le> l2BaseFee * 2"
    and exp: "FirstExponentialPricingVersion \<le> arbosVersion \<longrightarrow>
        0 \<le> minBaseFeeWei ps \<and> 0 \<le> sint (pricingInertia ps * speedLimitPerSecond ps) \<and>
        ApproxExpBasisPoints K 0 = OneInBips \<and>
        (\<forall>x y. sint x \<le> sint y \<longrightarrow>
           sint (ApproxExpBasisPoints K x) \<le> sint (ApproxExpBasisPoints K y))"
  shows "minBaseFeeWei ps' \<le> baseFeeWei ps'"
proof (cases "arbosVersion < FirstExponentialPricingVersion")
  case True
  with ret have "UpdatePricingModel_preExp K l2BaseFee timePassed arbosVersion debug ps = Inr ps'"
    by (simp add: UpdatePricingModel_def)
  then obtain p r g where "ps' = ps\<lparr>rateEstimate := r,
      baseFeeWei := preExp_clamp p (minBaseFeeWei ps) (l2BaseFee * 2),
      gasPool_preExp := g, gasPoolLastBlock := g\<rparr>"
    unfolding preExp_healthy [OF healthy] by (auto split: if_splits)
  with pre True show ?thesis
    by (simp add: preExp_clamp_ge)
next
  case False
  then have v: "FirstExponentialPricingVersion \<le> arbosVersion" by simp
  with exp have m: "0 \<le> minBaseFeeWei ps" and D: "0 \<le> sint (pricingInertia ps * speedLimitPerSecond ps)"
    and one: "ApproxExpBasisPoints K 0 = OneInBips"
    and mono: "\<forall>x y. sint x \<le> sint y \<longrightarrow>
           sint (ApproxExpBasisPoints K x) \<le> sint (ApproxExpBasisPoints K y)"
    by simp_all
  show ?thesis
  proof (cases "pricingInertia ps * speedLimitPerSecond ps = 0")
    case True
    with ret show ?thesis
      by (auto simp: exp_update_healthy [OF healthy v] split: if_splits)
  next
    case False
    then have "sint (pricingInertia ps * speedLimitPerSecond ps) \<noteq> 0"
      by (metis word_of_int_sint64 word_of_int_0)
    with D have D': "0 < sint (pricingInertia ps * speedLimitPerSecond ps)" by simp
    from ret have "ps' = ps\<lparr>gasBacklog :=
              SaturatingUCast (SaturatingSub (gasBacklog ps) (timePassed * speedLimitPerSecond ps)),
            baseFeeWei := exp_fee K (minBaseFeeWei ps) (backlogTolerance ps * speedLimitPerSecond ps)
              (pricingInertia ps * speedLimitPerSecond ps)
              (SaturatingUCast (SaturatingSub (gasBacklog ps) (timePassed * speedLimitPerSecond ps)))\<rparr>"
      by (simp add: exp_update_fee [OF healthy v False])
    then show ?thesis
      using exp_fee_floor [OF mono one m discharged_range D'] by simp
  qed
qed

theorem base_fee_floor_witness:
  "failing (InitialState\<lparr>gasPool_preExp := 0, gasPoolLastBlock := 0\<rparr>) = [] \<and>
   UpdatePricingModel reference_kit 100000000 1 3 True
     (InitialState\<lparr>gasPool_preExp := 0, gasPoolLastBlock := 0\<rparr>) =
   Inr (InitialState\<lparr>gasPool_preExp := 1000000, gasPoolLastBlock := 1000000,
          rateEstimate := 983606, baseFeeWei := 100490000\<rparr>) \<and>
   minBaseFeeWei (InitialState\<lparr>gasPool_preExp := 0, gasPoolLastBlock := 0\<rparr>) \<le> 100000000 * 2 \<and>
   minBaseFeeWei (InitialState\<lparr>gasPool_preExp := 1000000, gasPoolLastBlock := 1000000,
          rateEstimate := 983606, baseFeeWei := 100490000\<rparr>)
     \<le> baseFeeWei (InitialState\<lparr>gasPool_preExp := 1000000, gasPoolLastBlock := 1000000,
          rateEstimate := 983606, baseFeeWei := 100490000\<rparr>) \<and>
   failing (InitialState\<lparr>gasBacklog := 100000000\<rparr>) = [] \<and>
   UpdatePricingModel reference_kit 100000000 5 4 True (InitialState\<lparr>gasBacklog := 100000000\<rparr>) =
   Inr (InitialState\<lparr>gasBacklog := 95000000, baseFeeWei := 229690000\<rparr>) \<and>
   0 \<le> minBaseFeeWei (InitialState\<lparr>gasBacklog := 100000000\<rparr>) \<and>
   0 \<le> sint (pricingInertia (InitialState\<lparr>gasBacklog := 100000000\<rparr>) *
              speedLimitPerSecond (InitialState\<lparr>gasBacklog := 100000000\<rparr>)) \<and>
   ApproxExpBasisPoints reference_kit 0 = OneInBips \<and>
   minBaseFeeWei (InitialState\<lparr>gasBacklog := 95000000, baseFeeWei := 229690000\<rparr>)
     \<le> baseFeeWei (InitialState\<lparr>gasBacklog := 95000000, baseFeeWei := 229690000\<rparr>)"
proof -
  let ?S = "InitialState\<lparr>gasPool_preExp := 0, gasPoolLastBlock := 0\<rparr>"
  let ?S' = "InitialState\<lparr>gasPool_preExp := 1000000, gasPoolLastBlock := 1000000,
          rateEstimate := 983606, baseFeeWei := 100490000\<rparr>"
  let ?T = "InitialState\<lparr>gasBacklog := 100000000\<rparr>"
  let ?T' = "InitialState\<lparr>gasBacklog := 95000000, baseFeeWei := 229690000\<rparr>"
  have a1: "failing ?S = []" by code_simp
  have a2: "UpdatePricingModel reference_kit 100000000 1 3 True ?S = Inr ?S'" by code_simp
  have a3: "minBaseFeeWei ?S \<le> 100000000 * 2" by code_simp
  have a4: "\<not> FirstExponentialPricingVersion \<le> (3 :: u64)" by code_simp
  have b1: "failing ?T = []" by code_simp
  have b2: "UpdatePricingModel reference_kit 100000000 5 4 True ?T = Inr ?T'" by code_simp
  have b3: "0 \<le> minBaseFeeWei ?T" by code_simp
  have b4: "0 \<le> sint (pricingInertia ?T * speedLimitPerSecond ?T)" by code_simp
  have b5: "ApproxExpBasisPoints reference_kit 0 = OneInBips"
    by (simp add: reference_kit_def ApproxExpQuartic_zero)
  have b6: "\<forall>x y. sint x \<le> sint y \<longrightarrow>
      sint (ApproxExpBasisPoints reference_kit x) \<le> sint (ApproxExpBasisPoints reference_kit y)"
    by (simp add: reference_kit_def ApproxExpQuartic_mono)
  have b7: "\<not> (4 :: u64) < FirstExponentialPricingVersion" by code_simp
  have c1: "minBaseFeeWei ?S' \<le> baseFeeWei ?S'"
    using base_fee_floor [OF a1 a2] a3 a4 by blast
  have c2: "minBaseFeeWei ?T' \<le> baseFeeWei ?T'"
    using base_fee_floor [OF b1 b2] b3 b4 b5 b6 b7 by blast
  from a1 a2 a3 b1 b2 b3 b4 b5 c1 c2 show ?thesis by blast
qed

text \<open>
  The claim as stated fails below version 4 when twice the previous base fee is under the
  minimum: the upper clamp is applied last.  With a previous base fee of 40 000 000 and the
  minimum at 100 000 000 the persisted base fee is 80 000 000.
\<close>

theorem base_fee_floor_counterexample:
  "UpdatePricingModel reference_kit 40000000 1 3 True (InitialState\<lparr>baseFeeWei := 40000000\<rparr>) =
     Inr (InitialState\<lparr>rateEstimate := 983606, baseFeeWei := 80000000\<rparr>) \<and>
   baseFeeWei (InitialState\<lparr>rateEstimate := 983606, baseFeeWei := 80000000\<rparr>)
     < minBaseFeeWei (InitialState\<lparr>rateEstimate := 983606, baseFeeWei := 80000000\<rparr>)"
proof -
  have "UpdatePricingModel reference_kit 40000000 1 3 True (InitialState\<lparr>baseFeeWei := 40000000\<rparr>) =
     Inr (InitialState\<lparr>rateEstimate := 983606, baseFeeWei := 80000000\<rparr>)"
    by code_simp
  moreover have "baseFeeWei (InitialState\<lparr>rateEstimate := 983606, baseFeeWei := 80000000\<rparr>)
     < minBaseFeeWei (InitialState\<lparr>rateEstimate := 983606, baseFeeWei := 80000000\<rparr>)"
    by code_simp
  ultimately show ?thesis by blast
qed

text \<open>
  C3.  Below version 4 the base fee that an update persists is at most twice the previous
  base fee, whatever the state and the time passed (when the update returns and the write of
  the base fee does not fail).
\<close>

theorem preExp_step_cap:
  assumes "arbosVersion < FirstExponentialPricingVersion"
    and "Store BaseFeeSlot \<notin> set (failing ps)"
    and "UpdatePricingModel K l2BaseFee timePassed arbosVersion debug ps = Inr ps'"
  shows "baseFeeWei ps' \<le> l2BaseFee * 2"
proof -
  from assms(1,3)
  have "UpdatePricingModel_preExp K l2BaseFee timePassed arbosVersion debug ps = Inr ps'"
    by (simp add: UpdatePricingModel_def)
  then obtain p n m where
    "ps' = fst (SetGasPoolLastBlock n (fst (SetGasPool_preExp m (fst (SetBaseFeeWei
        (preExp_clamp p (fst (MinBaseFeeWei (fst (SetRateEstimate (preExp_rate timePassed ps) ps))))
           (BigMulByInt l2BaseFee ElasticityMultiplier))
        (fst (SetRateEstimate (preExp_rate timePassed ps) ps)))))))"
    unfolding UpdatePricingModel_preExp_unfold by (auto split: if_splits)
  with assms(2) have "baseFeeWei ps' =
      preExp_clamp p (fst (MinBaseFeeWei (fst (SetRateEstimate (preExp_rate timePassed ps) ps))))
        (BigMulByInt l2BaseFee ElasticityMultiplier)"
    by (simp add: baseFee_after failing_SetRateEstimate)
  then show ?thesis
    using preExp_clamp_le [of p _ "BigMulByInt l2BaseFee ElasticityMultiplier"]
    by (simp add: BigMulByInt_def ElasticityMultiplier_def)
qed

theorem preExp_step_cap_witness:
  "(3 :: u64) < FirstExponentialPricingVersion \<and>
   Store BaseFeeSlot \<notin> set (failing (InitialState\<lparr>gasPool_preExp := 0, gasPoolLastBlock := 0\<rparr>)) \<and>
   UpdatePricingModel reference_kit 100000000 1 3 True
     (InitialState\<lparr>gasPool_preExp := 0, gasPoolLastBlock := 0\<rparr>) =
   Inr (InitialState\<lparr>gasPool_preExp := 1000000, gasPoolLastBlock := 1000000,
          rateEstimate := 983606, baseFeeWei := 100490000\<rparr>) \<and>
   baseFeeWei (InitialState\<lparr>gasPool_preExp := 1000000, gasPoolLastBlock := 1000000,
          rateEstimate := 983606, baseFeeWei := 100490000\<rparr>) \<le> 100000000 * 2"
proof -
  have v: "(3 :: u64) < FirstExponentialPricingVersion"
    by (simp add: FirstExponentialPricingVersion_def)
  have f: "Store BaseFeeSlot \<notin> set (failing (InitialState\<lparr>gasPool_preExp := 0, gasPoolLastBlock := 0\<rparr>))"
    by (simp add: InitialState_def)
  have r: "UpdatePricingModel reference_kit 100000000 1 3 True
       (InitialState\<lparr>gasPool_preExp := 0, gasPoolLastBlock := 0\<rparr>) =
     Inr (InitialState\<lparr>gasPool_preExp := 1000000, gasPoolLastBlock := 1000000,
          rateEstimate := 983606, baseFeeWei := 100490000\<rparr>)"
    by code_simp
  from preExp_step_cap [OF v f r] v f r show ?thesis
    by simp
qed

text \<open>
  C4.  With a storage that answers, an update with no time passed and the stored
  base fee as the previous base fee returns and changes nothing, provided that
  below version 4 the rate estimate is the speed limit, the gas pool and the gas pool of
  the last block are the maximum, the speed limit and the inertia of the rate estimate are
  not 0, their product is below \<open>2^64\<close>, the stored base fee is at least the minimum and
  not negative, and the exponential is 10 000 at 0; and that from version 4 on the backlog
  is 0 and the stored base fee is the minimum base fee.
\<close>

theorem steady_state_fixpoint:
  assumes healthy: "failing ps = []"
    and pre: "arbosVersion < FirstExponentialPricingVersion \<longrightarrow>
        rateEstimate ps = speedLimitPerSecond ps \<and>
        gasPool_preExp ps = fst (GasPoolMax ps) \<and> gasPoolLastBlock ps = fst (GasPoolMax ps) \<and>
        speedLimitPerSecond ps \<noteq> 0 \<and> rateEstimateInertia ps \<noteq> 0 \<and>
        uint (rateEstimateInertia ps) * uint (speedLimitPerSecond ps) < 2 ^ 64 \<and>
        minBaseFeeWei ps \<le> baseFeeWei ps \<and> 0 \<le> baseFeeWei ps \<and>
        ApproxExpBasisPoints K 0 = OneInBips"
    and exp: "FirstExponentialPricingVersion \<le> arbosVersion \<longrightarrow>
        gasBacklog ps = 0 \<and> baseFeeWei ps = minBaseFeeWei ps"
  shows "UpdatePricingModel K (baseFeeWei ps) 0 arbosVersion debug ps = Inr ps"
proof (cases "arbosVersion < FirstExponentialPricingVersion")
  case True
  with pre have r: "rateEstimate ps = speedLimitPerSecond ps"
    and g: "gasPool_preExp ps = fst (GasPoolMax ps)" "gasPoolLastBlock ps = fst (GasPoolMax ps)"
    and s: "speedLimitPerSecond ps \<noteq> 0" and i: "rateEstimateInertia ps \<noteq> 0"
    and m: "uint (rateEstimateInertia ps) * uint (speedLimitPerSecond ps) < 2 ^ 64"
    and f: "minBaseFeeWei ps \<le> baseFeeWei ps" "0 \<le> baseFeeWei ps"
    and one: "ApproxExpBasisPoints K 0 = OneInBips"
    by simp_all
  have used: "preExp_gasUsed ps = 0"
    using healthy by (simp add: preExp_gasUsed_def getter_defs load_ok g)
  have rate: "preExp_rate 0 ps = speedLimitPerSecond ps"
    using healthy rate_idle [OF i m]
    by (simp add: preExp_rate_def used getter_defs load_ok r)
  have "UpdatePricingModel_preExp K (baseFeeWei ps) 0 arbosVersion debug ps =
      Inr (ps\<lparr>rateEstimate := speedLimitPerSecond ps, baseFeeWei := baseFeeWei ps,
        gasPool_preExp := fst (GasPoolMax ps), gasPoolLastBlock := fst (GasPoolMax ps)\<rparr>)"
    using s i f
    by (simp add: preExp_healthy [OF healthy] rate g MinInt_same preExp_pool_idle preExp_exp_idle
        one BigMulByBips_one preExp_clamp_id sdiv64_zero)
  also have "\<dots> = Inr ps"
    using r g by (simp add: same_state)
  finally show ?thesis using True by (simp add: UpdatePricingModel_def)
next
  case False
  then have v: "FirstExponentialPricingVersion \<le> arbosVersion" by simp
  with exp have b: "gasBacklog ps = 0" and f: "baseFeeWei ps = minBaseFeeWei ps" by simp_all
  have d: "SaturatingUCast (SaturatingSub 0 (0 :: 64 word)) = 0"
    by (simp add: SaturatingUCast_def SaturatingSub_def)
  have "UpdatePricingModel K (baseFeeWei ps) 0 arbosVersion debug ps =
      Inr (ps\<lparr>gasBacklog := 0, baseFeeWei := minBaseFeeWei ps\<rparr>)"
    by (simp add: exp_update_healthy [OF healthy v] b d)
  also have "\<dots> = Inr ps"
    using b f by (simp add: same_state_exp)
  finally show ?thesis .
qed

theorem steady_state_fixpoint_witness:
  "failing InitialState = [] \<and>
   rateEstimate InitialState = speedLimitPerSecond InitialState \<and>
   gasPool_preExp InitialState = fst (GasPoolMax InitialState) \<and>
   gasPoolLastBlock InitialState = fst (GasPoolMax InitialState) \<and>
   speedLimitPerSecond InitialState \<noteq> 0 \<and> rateEstimateInertia InitialState \<noteq> 0 \<and>
   uint (rateEstimateInertia InitialState) * uint (speedLimitPerSecond InitialState) < 2 ^ 64 \<and>
   minBaseFeeWei InitialState \<le> baseFeeWei InitialState \<and> 0 \<le> baseFeeWei InitialState \<and>
   ApproxExpBasisPoints reference_kit 0 = OneInBips \<and>
   gasBacklog InitialState = 0 \<and> baseFeeWei InitialState = minBaseFeeWei InitialState \<and>
   UpdatePricingModel reference_kit (baseFeeWei InitialState) 0 3 True InitialState = Inr InitialState \<and>
   UpdatePricingModel reference_kit (baseFeeWei InitialState) 0 4 True InitialState = Inr InitialState"
proof -
  have h: "failing InitialState = []" by code_simp
  have p1: "rateEstimate InitialState = speedLimitPerSecond InitialState" by code_simp
  have p2: "gasPool_preExp InitialState = fst (GasPoolMax InitialState)" by code_simp
  have p3: "gasPoolLastBlock InitialState = fst (GasPoolMax InitialState)" by code_simp
  have p4: "speedLimitPerSecond InitialState \<noteq> 0" by code_simp
  have p5: "rateEstimateInertia InitialState \<noteq> 0" by code_simp
  have p6: "uint (rateEstimateInertia InitialState) * uint (speedLimitPerSecond InitialState) < 2 ^ 64"
    by code_simp
  have p7: "minBaseFeeWei InitialState \<le> baseFeeWei InitialState" by code_simp
  have p8: "0 \<le> baseFeeWei InitialState" by code_simp
  have p9: "ApproxExpBasisPoints reference_kit 0 = OneInBips"
    by (simp add: reference_kit_def ApproxExpQuartic_zero)
  have e1: "gasBacklog InitialState = 0" by code_simp
  have e2: "baseFeeWei InitialState = minBaseFeeWei InitialState" by code_simp
  have v3: "\<not> FirstExponentialPricingVersion \<le> (3 :: u64)" by code_simp
  have v4: "\<not> (4 :: u64) < FirstExponentialPricingVersion" by code_simp
  have r3: "UpdatePricingModel reference_kit (baseFeeWei InitialState) 0 3 True InitialState
      = Inr InitialState"
    by (rule steady_state_fixpoint [OF h]) (use p1 p2 p3 p4 p5 p6 p7 p8 p9 v3 in blast)+
  have r4: "UpdatePricingModel reference_kit (baseFeeWei InitialState) 0 4 True InitialState
      = Inr InitialState"
    by (rule steady_state_fixpoint [OF h]) (use e1 e2 v4 in blast)+
  from h p1 p2 p3 p4 p5 p6 p7 p8 p9 e1 e2 r3 r4 show ?thesis by blast
qed

text \<open>
  The claim as stated fails from version 4 on when the stored base fee is above the
  minimum: the state below has the rate estimate at the speed limit, no backlog and the
  stored base fee passed as the previous one, and the update lowers the base fee from
  200 000 000 to the minimum.
\<close>

theorem steady_state_fixpoint_counterexample:
  "rateEstimate (InitialState\<lparr>baseFeeWei := 200000000\<rparr>)
     = speedLimitPerSecond (InitialState\<lparr>baseFeeWei := 200000000\<rparr>) \<and>
   gasBacklog (InitialState\<lparr>baseFeeWei := 200000000\<rparr>) = 0 \<and>
   baseFeeWei (InitialState\<lparr>baseFeeWei := 200000000\<rparr>) = 200000000 \<and>
   UpdatePricingModel reference_kit 200000000 0 4 True (InitialState\<lparr>baseFeeWei := 200000000\<rparr>)
     = Inr (InitialState\<lparr>baseFeeWei := 100000000\<rparr>) \<and>
   baseFeeWei (InitialState\<lparr>baseFeeWei := 100000000\<rparr>) = 100000000"
proof -
  have "rateEstimate (InitialState\<lparr>baseFeeWei := 200000000\<rparr>)
     = speedLimitPerSecond (InitialState\<lparr>baseFeeWei := 200000000\<rparr>)"
    by code_simp
  moreover have "gasBacklog (InitialState\<lparr>baseFeeWei := 200000000\<rparr>) = 0"
    by code_simp
  moreover have "UpdatePricingModel reference_kit 200000000 0 4 True
      (InitialState\<lparr>baseFeeWei := 200000000\<rparr>) = Inr (InitialState\<lparr>baseFeeWei := 100000000\<rparr>)"
    by code_simp
  ultimately show ?thesis by simp
qed



text \<open>
  C6.  Below version 4 the persisted gas pool is meant to be at most \<open>gas_pool_max\<close>:
  lines 99 to 101 announce \<open>pool' = min(maximum, pool + speed * passed)\<close>.  The code
  misses it when \<open>poolMax - gasPool\<close> overflows at line 103.  From genesis,
  \<open>AddToGasPool\<close> with the least \<open>int64\<close> leaves a pool of \<open>600 000 000 - 2^63\<close>; an update
  after 9 223 372 037 555 seconds then computes a negative \<open>timeToFull\<close>, takes the branch
  without the cap and persists 1 300 224 192 as the gas pool and as the gas pool of the
  last block, where the maximum is 600 000 000 and the announced minimum is 600 000 000.
\<close>

theorem gas_pool_exceeds_max:
  "AddToGasPool MinInt64 3 InitialState =
     (InitialState\<lparr>gasPool_preExp := 9223372037454775808\<rparr>, None) \<and>
   sint (gasPool_preExp (InitialState\<lparr>gasPool_preExp := 9223372037454775808\<rparr>))
     = 600000000 - 2 ^ 63 \<and>
   UpdatePricingModel reference_kit 100000000 9223372037555 3 True
     (InitialState\<lparr>gasPool_preExp := 9223372037454775808\<rparr>) =
     Inr (InitialState\<lparr>gasPool_preExp := 1300224192, gasPoolLastBlock := 1300224192,
            rateEstimate := 999999\<rparr>) \<and>
   fst (GasPoolMax (InitialState\<lparr>gasPool_preExp := 1300224192, gasPoolLastBlock := 1300224192,
            rateEstimate := 999999\<rparr>)) = 600000000 \<and>
   sint (600000000 :: i64) < sint (1300224192 :: i64) \<and>
   min (sint (fst (GasPoolMax (InitialState\<lparr>gasPool_preExp := 9223372037454775808\<rparr>))))
       (sint (gasPool_preExp (InitialState\<lparr>gasPool_preExp := 9223372037454775808\<rparr>))
          + uint (speedLimitPerSecond InitialState) * 9223372037555) = 600000000"
proof -
  have "AddToGasPool MinInt64 3 InitialState =
     (InitialState\<lparr>gasPool_preExp := 9223372037454775808\<rparr>, None)"
    by code_simp
  moreover have "sint (gasPool_preExp (InitialState\<lparr>gasPool_preExp := 9223372037454775808\<rparr>))
     = 600000000 - 2 ^ 63"
    by code_simp
  moreover have "UpdatePricingModel reference_kit 100000000 9223372037555 3 True
     (InitialState\<lparr>gasPool_preExp := 9223372037454775808\<rparr>) =
     Inr (InitialState\<lparr>gasPool_preExp := 1300224192, gasPoolLastBlock := 1300224192,
            rateEstimate := 999999\<rparr>)"
    by code_simp
  moreover have "fst (GasPoolMax (InitialState\<lparr>gasPool_preExp := 1300224192,
      gasPoolLastBlock := 1300224192, rateEstimate := 999999\<rparr>)) = 600000000"
    by code_simp
  moreover have "sint (600000000 :: i64) < sint (1300224192 :: i64)"
    by simp
  moreover have
    "min (sint (fst (GasPoolMax (InitialState\<lparr>gasPool_preExp := 9223372037454775808\<rparr>))))
       (sint (gasPool_preExp (InitialState\<lparr>gasPool_preExp := 9223372037454775808\<rparr>))
          + uint (speedLimitPerSecond InitialState) * 9223372037555) = 600000000"
    by code_simp
  ultimately show ?thesis by blast
qed

text \<open>
  C7.  With a storage that answers, \<open>UpdatePricingModel\<close> returns without a trap
  provided that below version 4 the 64-bit sum \<open>rateSeconds + timePassed\<close>, the speed limit
  and the 64-bit product \<open>2 * speedLimit\<close> are not 0, and that from version 4 on the 64-bit
  product \<open>inertia * speedLimit\<close> is not 0.  \<open>AddToGasPool\<close> and \<open>PerBlockGasLimit\<close> divide
  nowhere and return without an error, and \<open>AddToGasPool\<close> saturates: the new pool is
  \<open>gas_pool + gas\<close> clamped to the signed 64-bit range, the new backlog is
  \<open>int64(backlog) - gas\<close> clamped to the range from 0 to \<open>2^63 - 1\<close>.
\<close>

theorem operations_return:
  assumes healthy: "failing ps = []"
    and pre: "arbosVersion < FirstExponentialPricingVersion \<longrightarrow>
        rateEstimateInertia ps + timePassed \<noteq> 0 \<and> speedLimitPerSecond ps \<noteq> 0 \<and>
        2 * speedLimitPerSecond ps \<noteq> 0"
    and exp: "FirstExponentialPricingVersion \<le> arbosVersion \<longrightarrow>
        pricingInertia ps * speedLimitPerSecond ps \<noteq> 0"
  shows "(\<exists>ps'. UpdatePricingModel K l2BaseFee timePassed arbosVersion debug ps = Inr ps') \<and>
    (\<exists>ps'. AddToGasPool gas arbosVersion ps = (ps', None) \<and>
       (arbosVersion < FirstExponentialPricingVersion \<longrightarrow>
          sint (gasPool_preExp ps') =
            max (- (2 ^ 63)) (min (sint (gasPool_preExp ps) + sint gas) (2 ^ 63 - 1))) \<and>
       (FirstExponentialPricingVersion \<le> arbosVersion \<longrightarrow>
          uint (gasBacklog ps') = max 0 (min (sint (gasBacklog ps) - sint gas) (2 ^ 63 - 1)))) \<and>
    snd (PerBlockGasLimit arbosVersion ps) = None"
proof (intro conjI)
  show "\<exists>ps'. UpdatePricingModel K l2BaseFee timePassed arbosVersion debug ps = Inr ps'"
  proof (cases "arbosVersion < FirstExponentialPricingVersion")
    case True
    with pre have p: "rateEstimateInertia ps + timePassed \<noteq> 0" "speedLimitPerSecond ps \<noteq> 0"
        "2 * speedLimitPerSecond ps \<noteq> 0"
      by simp_all
    have "\<not> (timePassed > sdiv64 (fst (GasPoolMax ps) - MinInt (gasPool_preExp ps) (fst (GasPoolMax ps)))
                 (speedLimitPerSecond ps) \<and>
              SaturatingUMul (2 * speedLimitPerSecond ps) timePassed = 0)"
      using p(3) word_less_nonzero [of _ timePassed] by (auto simp: SaturatingUMul_eq_0)
    then show ?thesis
      using True p by (simp add: UpdatePricingModel_def preExp_healthy [OF healthy])
  next
    case False
    then have v: "FirstExponentialPricingVersion \<le> arbosVersion" by simp
    with exp have "pricingInertia ps * speedLimitPerSecond ps \<noteq> 0" by simp
    then show ?thesis
      by (simp add: exp_update_fee [OF healthy v])
  qed
  show "\<exists>ps'. AddToGasPool gas arbosVersion ps = (ps', None) \<and>
       (arbosVersion < FirstExponentialPricingVersion \<longrightarrow>
          sint (gasPool_preExp ps') =
            max (- (2 ^ 63)) (min (sint (gasPool_preExp ps) + sint gas) (2 ^ 63 - 1))) \<and>
       (FirstExponentialPricingVersion \<le> arbosVersion \<longrightarrow>
          uint (gasBacklog ps') = max 0 (min (sint (gasBacklog ps) - sint gas) (2 ^ 63 - 1)))"
    by (simp add: AddToGasPool_healthy [OF healthy] SaturatingAdd_sint discharge_uint
        not_less [symmetric])
  show "snd (PerBlockGasLimit arbosVersion ps) = None"
    using healthy by (simp add: PerBlockGasLimit_def getter_defs load_ok Let_def)
qed

theorem operations_return_witness:
  "failing InitialState = [] \<and>
   rateEstimateInertia InitialState + 7 \<noteq> 0 \<and> speedLimitPerSecond InitialState \<noteq> 0 \<and>
   2 * speedLimitPerSecond InitialState \<noteq> 0 \<and>
   pricingInertia InitialState * speedLimitPerSecond InitialState \<noteq> 0 \<and>
   (\<exists>ps'. UpdatePricingModel reference_kit 100000000 7 3 True InitialState = Inr ps') \<and>
   (\<exists>ps'. UpdatePricingModel reference_kit 100000000 7 4 True InitialState = Inr ps') \<and>
   AddToGasPool (- 30000000) 3 InitialState = (InitialState\<lparr>gasPool_preExp := 570000000\<rparr>, None) \<and>
   AddToGasPool (- 30000000) 4 InitialState = (InitialState\<lparr>gasBacklog := 30000000\<rparr>, None) \<and>
   snd (PerBlockGasLimit 3 InitialState) = None \<and> snd (PerBlockGasLimit 4 InitialState) = None"
proof -
  have h: "failing InitialState = []" by code_simp
  have p1: "rateEstimateInertia InitialState + 7 \<noteq> 0" by code_simp
  have p2: "speedLimitPerSecond InitialState \<noteq> 0" by code_simp
  have p3: "2 * speedLimitPerSecond InitialState \<noteq> 0" by code_simp
  have e1: "pricingInertia InitialState * speedLimitPerSecond InitialState \<noteq> 0" by code_simp
  have v3: "\<not> FirstExponentialPricingVersion \<le> (3 :: u64)" by code_simp
  have v4: "\<not> (4 :: u64) < FirstExponentialPricingVersion" by code_simp
  have a3: "AddToGasPool (- 30000000) 3 InitialState =
      (InitialState\<lparr>gasPool_preExp := 570000000\<rparr>, None)"
    by code_simp
  have a4: "AddToGasPool (- 30000000) 4 InitialState = (InitialState\<lparr>gasBacklog := 30000000\<rparr>, None)"
    by code_simp
  have pre3: "(3 :: u64) < FirstExponentialPricingVersion \<longrightarrow>
        rateEstimateInertia InitialState + 7 \<noteq> 0 \<and> speedLimitPerSecond InitialState \<noteq> 0 \<and>
        2 * speedLimitPerSecond InitialState \<noteq> 0"
    using p1 p2 p3 by blast
  have exp3: "FirstExponentialPricingVersion \<le> (3 :: u64) \<longrightarrow>
        pricingInertia InitialState * speedLimitPerSecond InitialState \<noteq> 0"
    using e1 by blast
  have pre4: "(4 :: u64) < FirstExponentialPricingVersion \<longrightarrow>
        rateEstimateInertia InitialState + 7 \<noteq> 0 \<and> speedLimitPerSecond InitialState \<noteq> 0 \<and>
        2 * speedLimitPerSecond InitialState \<noteq> 0"
    using p1 p2 p3 by blast
  have exp4: "FirstExponentialPricingVersion \<le> (4 :: u64) \<longrightarrow>
        pricingInertia InitialState * speedLimitPerSecond InitialState \<noteq> 0"
    using e1 by blast
  note t3 = operations_return [OF h pre3 exp3, of reference_kit 100000000 True "- 30000000"]
  note t4 = operations_return [OF h pre4 exp4, of reference_kit 100000000 True "- 30000000"]
  from h p1 p2 p3 e1 a3 a4 t3 t4 show ?thesis by blast
qed

text \<open>
  The claim as stated fails on both counts.  The product \<open>timePassed * speedLimit\<close> of
  line 61 wraps: with the default parameters and 18 446 744 073 711 seconds passed it is
  1 448 384, and only that much of a backlog of 200 000 000 is discharged.  And a division
  traps: with a speed limit of 0 the update below version 4 divides by zero, although
  \<open>rateSeconds + timePassed\<close> is 61.
\<close>

theorem operations_return_counterexample:
  "2 ^ 64 \<le> uint (18446744073711 :: u64) * uint (speedLimitPerSecond InitialState) \<and>
   (18446744073711 :: u64) * speedLimitPerSecond InitialState = 1448384 \<and>
   UpdatePricingModel reference_kit 100000000 18446744073711 4 True
     (InitialState\<lparr>gasBacklog := 200000000\<rparr>) =
     Inr (InitialState\<lparr>gasBacklog := 198551616, baseFeeWei := 609590000\<rparr>) \<and>
   rateEstimateInertia (InitialState\<lparr>speedLimitPerSecond := 0\<rparr>) + 1 = 61 \<and>
   UpdatePricingModel reference_kit 100000000 1 3 True (InitialState\<lparr>speedLimitPerSecond := 0\<rparr>)
     = Inl IntegerDivideByZero"
proof -
  have "2 ^ 64 \<le> uint (18446744073711 :: u64) * uint (speedLimitPerSecond InitialState)"
    by code_simp
  moreover have "(18446744073711 :: u64) * speedLimitPerSecond InitialState = 1448384"
    by code_simp
  moreover have "UpdatePricingModel reference_kit 100000000 18446744073711 4 True
     (InitialState\<lparr>gasBacklog := 200000000\<rparr>) =
     Inr (InitialState\<lparr>gasBacklog := 198551616, baseFeeWei := 609590000\<rparr>)"
    by code_simp
  moreover have "rateEstimateInertia (InitialState\<lparr>speedLimitPerSecond := 0\<rparr>) + 1 = 61"
    by code_simp
  moreover have "UpdatePricingModel reference_kit 100000000 1 3 True
      (InitialState\<lparr>speedLimitPerSecond := 0\<rparr>) = Inl IntegerDivideByZero"
    by code_simp
  ultimately show ?thesis by blast
qed

text \<open>
  C8.  With a storage that answers, \<open>PerBlockGasLimit\<close> returns the stored limit from
  version 4 on, and below version 4 the smaller of the gas pool and the stored limit,
  clamped at zero: 0 for a negative pool, the pool when it is between 0 and the limit, the
  limit above that.
\<close>

theorem per_block_gas_limit_value:
  assumes "failing ps = []"
  shows "PerBlockGasLimit arbosVersion ps =
     (if FirstExponentialPricingVersion \<le> arbosVersion then perBlockGasLimit ps
      else word_of_int (max 0 (min (sint (gasPool_preExp ps)) (uint (perBlockGasLimit ps)))),
      None)"
  using assms uint64_bounds [of "gasPool_preExp ps"]
  apply (auto simp: PerBlockGasLimit_def getter_defs load_ok Let_def max_def min_def sint_uint64
      word_less_def split: if_splits)
  using uint_ge_0 [of "perBlockGasLimit ps"] by linarith

theorem per_block_gas_limit_value_witness:
  "failing (InitialState\<lparr>gasPool_preExp := 5000\<rparr>) = [] \<and>
   PerBlockGasLimit 3 (InitialState\<lparr>gasPool_preExp := 5000\<rparr>) = (5000, None) \<and>
   PerBlockGasLimit 3 (InitialState\<lparr>gasPool_preExp := - 1\<rparr>) = (0, None) \<and>
   PerBlockGasLimit 3 InitialState = (20000000, None) \<and>
   PerBlockGasLimit 4 (InitialState\<lparr>gasPool_preExp := 5000\<rparr>) = (20000000, None)"
proof -
  have f: "failing (InitialState\<lparr>gasPool_preExp := 5000\<rparr>) = []"
      "failing (InitialState\<lparr>gasPool_preExp := - 1\<rparr>) = []" "failing InitialState = []"
    by (simp_all add: InitialState_def)
  have i: "perBlockGasLimit InitialState = 20000000" "gasPool_preExp InitialState = 600000000"
    by (simp_all add: InitialState_def InitialPerBlockGasLimit_def InitialGasPoolSeconds_def
        InitialSpeedLimitPerSecond_def)
  show ?thesis
    using f per_block_gas_limit_value [OF f(1), of 3] per_block_gas_limit_value [OF f(2), of 3]
      per_block_gas_limit_value [OF f(3), of 3] per_block_gas_limit_value [OF f(1), of 4] i
    by (simp add: FirstExponentialPricingVersion_def)
qed

text \<open>
  C9.  \<open>UpdatePricingModel\<close> has no error result, and no storage error inside it
  reaches the caller: it returns a state or traps on a division by zero.  Whatever accesses fail, it returns whenever the values that its
  reads deliver keep the divisors from 0 (below version 4 the 64-bit sum
  \<open>rateSeconds + timePassed\<close>, the speed limit and \<open>2 * speedLimit\<close>; from version 4 on
  the 64-bit product \<open>inertia * speedLimit\<close>).  When it returns, a failed write of the
  base fee, the rate estimate, the gas pool, the gas pool of the last block or the backlog
  has left that slot as it was.  From version 4 on, when the read of the backlog fails,
  the inner \<open>AddToGasPool\<close> returns that error, the update drops it and returns the state
  with nothing but the base fee written, to the value read as the minimum.  A read that
  fails can make the update trap instead, on a division by zero: below version 4 the read
  of the speed limit always does, from version 4 on the read of the inertia does when the
  backlog after the discharge is above the tolerated one.  Storage errors are propagated
  by \<open>AddToGasPool\<close> (the read, else the write: of the backlog from version 4 on, of the
  gas pool below) and by \<open>PerBlockGasLimit\<close> (the read of the limit); below version 4
  \<open>PerBlockGasLimit\<close> drops the error of its read of the gas pool and returns 0.
\<close>

theorem storage_errors:
  "((\<exists>r. UpdatePricingModel K l2BaseFee timePassed arbosVersion debug ps = Inr r) \<or>
      UpdatePricingModel K l2BaseFee timePassed arbosVersion debug ps = Inl IntegerDivideByZero) \<and>
   ((arbosVersion < FirstExponentialPricingVersion \<longrightarrow>
        fst (RateEstimateInertia ps) + timePassed \<noteq> 0 \<and> fst (SpeedLimitPerSecond ps) \<noteq> 0 \<and>
        2 * fst (SpeedLimitPerSecond ps) \<noteq> 0) \<and>
    (FirstExponentialPricingVersion \<le> arbosVersion \<longrightarrow>
        fst (PricingInertia ps) * fst (SpeedLimitPerSecond ps) \<noteq> 0)
    \<longrightarrow> (\<exists>r. UpdatePricingModel K l2BaseFee timePassed arbosVersion debug ps = Inr r)) \<and>
   (UpdatePricingModel K l2BaseFee timePassed arbosVersion debug ps = Inr ps' \<longrightarrow>
      (Store BaseFeeSlot \<in> set (failing ps) \<longrightarrow> baseFeeWei ps' = baseFeeWei ps) \<and>
      (Store RateEstimateSlot \<in> set (failing ps) \<longrightarrow> rateEstimate ps' = rateEstimate ps) \<and>
      (Store GasPoolSlot \<in> set (failing ps) \<longrightarrow> gasPool_preExp ps' = gasPool_preExp ps) \<and>
      (Store GasPoolLastBlockSlot \<in> set (failing ps) \<longrightarrow>
         gasPoolLastBlock ps' = gasPoolLastBlock ps) \<and>
      (Store GasBacklogSlot \<in> set (failing ps) \<longrightarrow> gasBacklog ps' = gasBacklog ps)) \<and>
   (FirstExponentialPricingVersion \<le> arbosVersion \<and> Load GasBacklogSlot \<in> set (failing ps) \<longrightarrow>
      snd (AddToGasPool (timePassed * fst (SpeedLimitPerSecond ps)) arbosVersion ps)
        = Some (StorageError (Load GasBacklogSlot)) \<and>
      UpdatePricingModel K l2BaseFee timePassed arbosVersion debug ps =
        Inr (fst (SetBaseFeeWei (fst (MinBaseFeeWei ps)) ps))) \<and>
   (arbosVersion < FirstExponentialPricingVersion \<and> Load SpeedLimitSlot \<in> set (failing ps) \<longrightarrow>
      UpdatePricingModel K l2BaseFee timePassed arbosVersion debug ps = Inl IntegerDivideByZero) \<and>
   (FirstExponentialPricingVersion \<le> arbosVersion \<and> Load PricingInertiaSlot \<in> set (failing ps) \<and>
      fst (BacklogTolerance ps) * fst (SpeedLimitPerSecond ps)
        < fst (GasBacklog (fst (AddToGasPool (timePassed * fst (SpeedLimitPerSecond ps))
            arbosVersion ps))) \<longrightarrow>
      UpdatePricingModel K l2BaseFee timePassed arbosVersion debug ps = Inl IntegerDivideByZero) \<and>
   (FirstExponentialPricingVersion \<le> arbosVersion \<and> Load GasBacklogSlot \<in> set (failing ps)
      \<longrightarrow> AddToGasPool gas arbosVersion ps = (ps, Some (StorageError (Load GasBacklogSlot)))) \<and>
   (FirstExponentialPricingVersion \<le> arbosVersion \<and> Load GasBacklogSlot \<notin> set (failing ps) \<and>
      Store GasBacklogSlot \<in> set (failing ps)
      \<longrightarrow> AddToGasPool gas arbosVersion ps = (ps, Some (StorageError (Store GasBacklogSlot)))) \<and>
   (arbosVersion < FirstExponentialPricingVersion \<and> Load GasPoolSlot \<in> set (failing ps)
      \<longrightarrow> AddToGasPool gas arbosVersion ps = (ps, Some (StorageError (Load GasPoolSlot)))) \<and>
   (arbosVersion < FirstExponentialPricingVersion \<and> Load GasPoolSlot \<notin> set (failing ps) \<and>
      Store GasPoolSlot \<in> set (failing ps)
      \<longrightarrow> AddToGasPool gas arbosVersion ps = (ps, Some (StorageError (Store GasPoolSlot)))) \<and>
   (Load PerBlockGasLimitSlot \<in> set (failing ps)
      \<longrightarrow> PerBlockGasLimit arbosVersion ps = (0, Some (StorageError (Load PerBlockGasLimitSlot)))) \<and>
   (arbosVersion < FirstExponentialPricingVersion \<and> Load GasPoolSlot \<in> set (failing ps) \<and>
      Load PerBlockGasLimitSlot \<notin> set (failing ps)
      \<longrightarrow> PerBlockGasLimit arbosVersion ps = (0, None))"
proof -
  have total: "(\<exists>r. UpdatePricingModel K l2BaseFee timePassed arbosVersion debug ps = Inr r) \<or>
      UpdatePricingModel K l2BaseFee timePassed arbosVersion debug ps = Inl IntegerDivideByZero"
  proof (cases "UpdatePricingModel K l2BaseFee timePassed arbosVersion debug ps")
    case (Inl e)
    then show ?thesis by (cases e) simp
  next
    case (Inr r)
    then show ?thesis by simp
  qed
  have returns: "(arbosVersion < FirstExponentialPricingVersion \<longrightarrow>
        fst (RateEstimateInertia ps) + timePassed \<noteq> 0 \<and> fst (SpeedLimitPerSecond ps) \<noteq> 0 \<and>
        2 * fst (SpeedLimitPerSecond ps) \<noteq> 0) \<and>
    (FirstExponentialPricingVersion \<le> arbosVersion \<longrightarrow>
        fst (PricingInertia ps) * fst (SpeedLimitPerSecond ps) \<noteq> 0)
    \<longrightarrow> (\<exists>r. UpdatePricingModel K l2BaseFee timePassed arbosVersion debug ps = Inr r)"
    using update_returns_any_storage [of arbosVersion ps timePassed K l2BaseFee debug] by blast
  have writes: "UpdatePricingModel K l2BaseFee timePassed arbosVersion debug ps = Inr ps' \<longrightarrow>
      (Store BaseFeeSlot \<in> set (failing ps) \<longrightarrow> baseFeeWei ps' = baseFeeWei ps) \<and>
      (Store RateEstimateSlot \<in> set (failing ps) \<longrightarrow> rateEstimate ps' = rateEstimate ps) \<and>
      (Store GasPoolSlot \<in> set (failing ps) \<longrightarrow> gasPool_preExp ps' = gasPool_preExp ps) \<and>
      (Store GasPoolLastBlockSlot \<in> set (failing ps) \<longrightarrow>
         gasPoolLastBlock ps' = gasPoolLastBlock ps) \<and>
      (Store GasBacklogSlot \<in> set (failing ps) \<longrightarrow> gasBacklog ps' = gasBacklog ps)"
    using update_keeps_failed_write [of K l2BaseFee timePassed arbosVersion debug ps ps'] by blast
  have backlog: "FirstExponentialPricingVersion \<le> arbosVersion \<and>
      Load GasBacklogSlot \<in> set (failing ps) \<longrightarrow>
      snd (AddToGasPool (timePassed * fst (SpeedLimitPerSecond ps)) arbosVersion ps)
        = Some (StorageError (Load GasBacklogSlot)) \<and>
      UpdatePricingModel K l2BaseFee timePassed arbosVersion debug ps =
        Inr (fst (SetBaseFeeWei (fst (MinBaseFeeWei ps)) ps))"
    by (simp add: backlog_read_fails)
  have speed: "arbosVersion < FirstExponentialPricingVersion \<and>
      Load SpeedLimitSlot \<in> set (failing ps) \<longrightarrow>
      UpdatePricingModel K l2BaseFee timePassed arbosVersion debug ps = Inl IntegerDivideByZero"
    by (simp add: speed_read_fails)
  have inertia: "FirstExponentialPricingVersion \<le> arbosVersion \<and>
      Load PricingInertiaSlot \<in> set (failing ps) \<and>
      fst (BacklogTolerance ps) * fst (SpeedLimitPerSecond ps)
        < fst (GasBacklog (fst (AddToGasPool (timePassed * fst (SpeedLimitPerSecond ps))
            arbosVersion ps))) \<longrightarrow>
      UpdatePricingModel K l2BaseFee timePassed arbosVersion debug ps = Inl IntegerDivideByZero"
    using inertia_read_fails [of arbosVersion ps timePassed K l2BaseFee debug] by blast
  have add1: "FirstExponentialPricingVersion \<le> arbosVersion \<and>
      Load GasBacklogSlot \<in> set (failing ps)
      \<longrightarrow> AddToGasPool gas arbosVersion ps = (ps, Some (StorageError (Load GasBacklogSlot)))"
    by (simp add: AddToGasPool_def getter_defs load_def not_less [symmetric])
  have add2: "FirstExponentialPricingVersion \<le> arbosVersion \<and>
      Load GasBacklogSlot \<notin> set (failing ps) \<and> Store GasBacklogSlot \<in> set (failing ps)
      \<longrightarrow> AddToGasPool gas arbosVersion ps = (ps, Some (StorageError (Store GasBacklogSlot)))"
    by (simp add: AddToGasPool_def getter_defs setter_defs load_def store_def not_less [symmetric])
  have add3: "arbosVersion < FirstExponentialPricingVersion \<and> Load GasPoolSlot \<in> set (failing ps)
      \<longrightarrow> AddToGasPool gas arbosVersion ps = (ps, Some (StorageError (Load GasPoolSlot)))"
    by (simp add: AddToGasPool_def AddToGasPool_preExp_def getter_defs load_def)
  have add4: "arbosVersion < FirstExponentialPricingVersion \<and>
      Load GasPoolSlot \<notin> set (failing ps) \<and> Store GasPoolSlot \<in> set (failing ps)
      \<longrightarrow> AddToGasPool gas arbosVersion ps = (ps, Some (StorageError (Store GasPoolSlot)))"
    by (simp add: AddToGasPool_def AddToGasPool_preExp_def getter_defs setter_defs load_def
        store_def)
  have limit1: "Load PerBlockGasLimitSlot \<in> set (failing ps)
      \<longrightarrow> PerBlockGasLimit arbosVersion ps = (0, Some (StorageError (Load PerBlockGasLimitSlot)))"
    by (simp add: PerBlockGasLimit_def getter_defs load_def Let_def)
  have limit2: "arbosVersion < FirstExponentialPricingVersion \<and>
      Load GasPoolSlot \<in> set (failing ps) \<and> Load PerBlockGasLimitSlot \<notin> set (failing ps)
      \<longrightarrow> PerBlockGasLimit arbosVersion ps = (0, None)"
    by (simp add: PerBlockGasLimit_def getter_defs load_def Let_def not_less [symmetric])
  show ?thesis
    by (intro conjI) (fact total returns writes backlog speed inertia add1 add2 add3 add4 limit1 limit2)+
qed

theorem storage_errors_witness:
  "UpdatePricingModel reference_kit 100000000 1 3 True
     (InitialState\<lparr>failing := [Store BaseFeeSlot, Store RateEstimateSlot],
        gasPool_preExp := 0, gasPoolLastBlock := 0\<rparr>) =
   Inr (InitialState\<lparr>failing := [Store BaseFeeSlot, Store RateEstimateSlot],
        gasPool_preExp := 1000000, gasPoolLastBlock := 1000000\<rparr>) \<and>
   UpdatePricingModel reference_kit 100000000 1 3 True
     (InitialState\<lparr>failing := [Store GasPoolSlot, Store GasPoolLastBlockSlot],
        gasPool_preExp := 0, gasPoolLastBlock := 0\<rparr>) =
   Inr (InitialState\<lparr>failing := [Store GasPoolSlot, Store GasPoolLastBlockSlot],
        gasPool_preExp := 0, gasPoolLastBlock := 0, rateEstimate := 983606,
        baseFeeWei := 100490000\<rparr>) \<and>
   UpdatePricingModel reference_kit 100000000 5 4 True
     (InitialState\<lparr>failing := [Store GasBacklogSlot], gasBacklog := 100000000\<rparr>) =
   Inr (InitialState\<lparr>failing := [Store GasBacklogSlot], gasBacklog := 100000000,
        baseFeeWei := 241110000\<rparr>) \<and>
   snd (AddToGasPool (5 * 1000000) 4
     (InitialState\<lparr>failing := [Load GasBacklogSlot], gasBacklog := 100000000,
        baseFeeWei := 200000000\<rparr>)) = Some (StorageError (Load GasBacklogSlot)) \<and>
   UpdatePricingModel reference_kit 100000000 5 4 True
     (InitialState\<lparr>failing := [Load GasBacklogSlot], gasBacklog := 100000000,
        baseFeeWei := 200000000\<rparr>) =
   Inr (InitialState\<lparr>failing := [Load GasBacklogSlot], gasBacklog := 100000000,
        baseFeeWei := 100000000\<rparr>) \<and>
   UpdatePricingModel reference_kit 100000000 1 3 True
     (InitialState\<lparr>failing := [Load SpeedLimitSlot]\<rparr>) = Inl IntegerDivideByZero \<and>
   UpdatePricingModel reference_kit 100000000 0 4 True
     (InitialState\<lparr>failing := [Load PricingInertiaSlot], gasBacklog := 100000000\<rparr>)
     = Inl IntegerDivideByZero \<and>
   AddToGasPool 5 4 (InitialState\<lparr>failing := [Load GasBacklogSlot]\<rparr>) =
     (InitialState\<lparr>failing := [Load GasBacklogSlot]\<rparr>, Some (StorageError (Load GasBacklogSlot))) \<and>
   AddToGasPool 5 4 (InitialState\<lparr>failing := [Store GasBacklogSlot]\<rparr>) =
     (InitialState\<lparr>failing := [Store GasBacklogSlot]\<rparr>, Some (StorageError (Store GasBacklogSlot))) \<and>
   AddToGasPool 5 3 (InitialState\<lparr>failing := [Load GasPoolSlot]\<rparr>) =
     (InitialState\<lparr>failing := [Load GasPoolSlot]\<rparr>, Some (StorageError (Load GasPoolSlot))) \<and>
   AddToGasPool 5 3 (InitialState\<lparr>failing := [Store GasPoolSlot]\<rparr>) =
     (InitialState\<lparr>failing := [Store GasPoolSlot]\<rparr>, Some (StorageError (Store GasPoolSlot))) \<and>
   PerBlockGasLimit 3 (InitialState\<lparr>failing := [Load PerBlockGasLimitSlot]\<rparr>) =
     (0, Some (StorageError (Load PerBlockGasLimitSlot))) \<and>
   PerBlockGasLimit 3 (InitialState\<lparr>failing := [Load GasPoolSlot]\<rparr>) = (0, None)"
proof -
  let ?A = "InitialState\<lparr>failing := [Store BaseFeeSlot, Store RateEstimateSlot],
        gasPool_preExp := 0, gasPoolLastBlock := 0\<rparr>"
  let ?A' = "InitialState\<lparr>failing := [Store BaseFeeSlot, Store RateEstimateSlot],
        gasPool_preExp := 1000000, gasPoolLastBlock := 1000000\<rparr>"
  let ?B = "InitialState\<lparr>failing := [Store GasPoolSlot, Store GasPoolLastBlockSlot],
        gasPool_preExp := 0, gasPoolLastBlock := 0\<rparr>"
  let ?B' = "InitialState\<lparr>failing := [Store GasPoolSlot, Store GasPoolLastBlockSlot],
        gasPool_preExp := 0, gasPoolLastBlock := 0, rateEstimate := 983606,
        baseFeeWei := 100490000\<rparr>"
  let ?C = "InitialState\<lparr>failing := [Store GasBacklogSlot], gasBacklog := 100000000\<rparr>"
  let ?C' = "InitialState\<lparr>failing := [Store GasBacklogSlot], gasBacklog := 100000000,
        baseFeeWei := 241110000\<rparr>"
  let ?D = "InitialState\<lparr>failing := [Load GasBacklogSlot], gasBacklog := 100000000,
        baseFeeWei := 200000000\<rparr>"
  let ?D' = "InitialState\<lparr>failing := [Load GasBacklogSlot], gasBacklog := 100000000,
        baseFeeWei := 100000000\<rparr>"
  let ?E = "InitialState\<lparr>failing := [Load SpeedLimitSlot]\<rparr>"
  let ?F = "InitialState\<lparr>failing := [Load PricingInertiaSlot], gasBacklog := 100000000\<rparr>"
  have v3: "(3 :: u64) < FirstExponentialPricingVersion"
      "\<not> FirstExponentialPricingVersion \<le> (3 :: u64)"
    by code_simp+
  have v4: "FirstExponentialPricingVersion \<le> (4 :: u64)"
      "\<not> (4 :: u64) < FirstExponentialPricingVersion"
    by code_simp+
  have a0: "fst (RateEstimateInertia ?A) + 1 \<noteq> 0" "fst (SpeedLimitPerSecond ?A) \<noteq> 0"
      "2 * fst (SpeedLimitPerSecond ?A) \<noteq> 0"
    by code_simp+
  have a1: "Store BaseFeeSlot \<in> set (failing ?A)" "Store RateEstimateSlot \<in> set (failing ?A)"
    by code_simp+
  have a2: "UpdatePricingModel reference_kit 100000000 1 3 True ?A = Inr ?A'"
    by code_simp
  note ta = storage_errors [where ps = ?A and arbosVersion = 3 and timePassed = 1
      and K = reference_kit and ?l2BaseFee = 100000000 and debug = True and ps' = ?A'
      and gas = 5]
  have a3: "\<exists>r. UpdatePricingModel reference_kit 100000000 1 3 True ?A = Inr r"
    using ta a0 v3 by simp
  have a4: "baseFeeWei ?A' = baseFeeWei ?A" "rateEstimate ?A' = rateEstimate ?A"
    using ta a1 a2 by simp_all
  have b1: "Store GasPoolSlot \<in> set (failing ?B)" "Store GasPoolLastBlockSlot \<in> set (failing ?B)"
    by code_simp+
  have b2: "UpdatePricingModel reference_kit 100000000 1 3 True ?B = Inr ?B'"
    by code_simp
  note tb = storage_errors [where ps = ?B and arbosVersion = 3 and timePassed = 1
      and K = reference_kit and ?l2BaseFee = 100000000 and debug = True and ps' = ?B'
      and gas = 5]
  have b3: "gasPool_preExp ?B' = gasPool_preExp ?B" "gasPoolLastBlock ?B' = gasPoolLastBlock ?B"
    using tb b1 b2 by simp_all
  have c0: "fst (PricingInertia ?C) * fst (SpeedLimitPerSecond ?C) \<noteq> 0"
    by code_simp
  have c1: "Store GasBacklogSlot \<in> set (failing ?C)"
    by code_simp
  have c2: "UpdatePricingModel reference_kit 100000000 5 4 True ?C = Inr ?C'"
    by code_simp
  note tc = storage_errors [where ps = ?C and arbosVersion = 4 and timePassed = 5
      and K = reference_kit and ?l2BaseFee = 100000000 and debug = True and ps' = ?C'
      and gas = 5]
  have c3: "\<exists>r. UpdatePricingModel reference_kit 100000000 5 4 True ?C = Inr r"
    using tc c0 v4 by simp
  have c4: "gasBacklog ?C' = gasBacklog ?C"
    using tc c1 c2 by simp
  have d1: "Load GasBacklogSlot \<in> set (failing ?D)"
    by code_simp
  have d2: "(5 :: u64) * fst (SpeedLimitPerSecond ?D) = 5 * 1000000"
      "fst (SetBaseFeeWei (fst (MinBaseFeeWei ?D)) ?D) = ?D'"
    by code_simp+
  note td = storage_errors [where ps = ?D and arbosVersion = 4 and timePassed = 5
      and K = reference_kit and ?l2BaseFee = 100000000 and debug = True and gas = 5
      and ps' = InitialState]
  have d3: "snd (AddToGasPool (5 * 1000000) 4 ?D) = Some (StorageError (Load GasBacklogSlot))"
      "UpdatePricingModel reference_kit 100000000 5 4 True ?D = Inr ?D'"
    using td d1 v4 d2 by auto
  have f1: "Load SpeedLimitSlot \<in> set (failing ?E)"
    by code_simp
  have f2: "UpdatePricingModel reference_kit 100000000 1 3 True ?E = Inl IntegerDivideByZero"
    using storage_errors [where ps = ?E and arbosVersion = 3 and timePassed = 1
      and K = reference_kit and ?l2BaseFee = 100000000 and debug = True and gas = 5
      and ps' = InitialState] f1 v3
    by simp
  have g1: "Load PricingInertiaSlot \<in> set (failing ?F)"
      "fst (BacklogTolerance ?F) * fst (SpeedLimitPerSecond ?F)
        < fst (GasBacklog (fst (AddToGasPool (0 * fst (SpeedLimitPerSecond ?F)) 4 ?F)))"
    by code_simp+
  have g2: "UpdatePricingModel reference_kit 100000000 0 4 True ?F = Inl IntegerDivideByZero"
    using storage_errors [where ps = ?F and arbosVersion = 4 and timePassed = 0
      and K = reference_kit and ?l2BaseFee = 100000000 and debug = True and gas = 5
      and ps' = InitialState] g1 v4
    by simp
  have l1: "Load GasBacklogSlot \<in> set (failing (InitialState\<lparr>failing := [Load GasBacklogSlot]\<rparr>))"
    by code_simp
  have l2: "Load GasBacklogSlot \<notin> set (failing (InitialState\<lparr>failing := [Store GasBacklogSlot]\<rparr>))"
      "Store GasBacklogSlot \<in> set (failing (InitialState\<lparr>failing := [Store GasBacklogSlot]\<rparr>))"
    by code_simp+
  have l3: "Load GasPoolSlot \<in> set (failing (InitialState\<lparr>failing := [Load GasPoolSlot]\<rparr>))"
      "Load PerBlockGasLimitSlot \<notin> set (failing (InitialState\<lparr>failing := [Load GasPoolSlot]\<rparr>))"
    by code_simp+
  have l4: "Load GasPoolSlot \<notin> set (failing (InitialState\<lparr>failing := [Store GasPoolSlot]\<rparr>))"
      "Store GasPoolSlot \<in> set (failing (InitialState\<lparr>failing := [Store GasPoolSlot]\<rparr>))"
    by code_simp+
  have l5: "Load PerBlockGasLimitSlot
      \<in> set (failing (InitialState\<lparr>failing := [Load PerBlockGasLimitSlot]\<rparr>))"
    by code_simp
  have e1: "AddToGasPool 5 4 (InitialState\<lparr>failing := [Load GasBacklogSlot]\<rparr>) =
     (InitialState\<lparr>failing := [Load GasBacklogSlot]\<rparr>, Some (StorageError (Load GasBacklogSlot)))"
    using storage_errors [where ps = "InitialState\<lparr>failing := [Load GasBacklogSlot]\<rparr>"
        and arbosVersion = 4 and gas = 5 and timePassed = 0 and K = reference_kit
        and ?l2BaseFee = 0 and debug = True and ps' = InitialState] v4 l1
    by simp
  have e2: "AddToGasPool 5 4 (InitialState\<lparr>failing := [Store GasBacklogSlot]\<rparr>) =
     (InitialState\<lparr>failing := [Store GasBacklogSlot]\<rparr>, Some (StorageError (Store GasBacklogSlot)))"
    using storage_errors [where ps = "InitialState\<lparr>failing := [Store GasBacklogSlot]\<rparr>"
        and arbosVersion = 4 and gas = 5 and timePassed = 0 and K = reference_kit
        and ?l2BaseFee = 0 and debug = True and ps' = InitialState] v4 l2
    by simp
  have e3: "AddToGasPool 5 3 (InitialState\<lparr>failing := [Load GasPoolSlot]\<rparr>) =
     (InitialState\<lparr>failing := [Load GasPoolSlot]\<rparr>, Some (StorageError (Load GasPoolSlot)))"
    using storage_errors [where ps = "InitialState\<lparr>failing := [Load GasPoolSlot]\<rparr>"
        and arbosVersion = 3 and gas = 5 and timePassed = 0 and K = reference_kit
        and ?l2BaseFee = 0 and debug = True and ps' = InitialState] v3 l3
    by simp
  have e4: "AddToGasPool 5 3 (InitialState\<lparr>failing := [Store GasPoolSlot]\<rparr>) =
     (InitialState\<lparr>failing := [Store GasPoolSlot]\<rparr>, Some (StorageError (Store GasPoolSlot)))"
    using storage_errors [where ps = "InitialState\<lparr>failing := [Store GasPoolSlot]\<rparr>"
        and arbosVersion = 3 and gas = 5 and timePassed = 0 and K = reference_kit
        and ?l2BaseFee = 0 and debug = True and ps' = InitialState] v3 l4
    by simp
  have e5: "PerBlockGasLimit 3 (InitialState\<lparr>failing := [Load PerBlockGasLimitSlot]\<rparr>) =
     (0, Some (StorageError (Load PerBlockGasLimitSlot)))"
    using storage_errors [where ps = "InitialState\<lparr>failing := [Load PerBlockGasLimitSlot]\<rparr>"
        and arbosVersion = 3 and gas = 5 and timePassed = 0 and K = reference_kit
        and ?l2BaseFee = 0 and debug = True and ps' = InitialState] l5
    by simp
  have e6: "PerBlockGasLimit 3 (InitialState\<lparr>failing := [Load GasPoolSlot]\<rparr>) = (0, None)"
    using storage_errors [where ps = "InitialState\<lparr>failing := [Load GasPoolSlot]\<rparr>"
        and arbosVersion = 3 and gas = 5 and timePassed = 0 and K = reference_kit
        and ?l2BaseFee = 0 and debug = True and ps' = InitialState] v3 l3
    by simp
  from a2 a3 a4 b2 b3 c2 c3 c4 d3 f2 g2 e1 e2 e3 e4 e5 e6 show ?thesis by blast
qed

text \<open>
  The claim as stated fails: the write of the base fee below returns a storage error,
  and the update that performs it returns all the same, with the old base fee of
  100 000 000 in place of the new one of 241 110 000; likewise a failing read of the
  backlog makes \<open>AddToGasPool\<close> return an error that the update drops.
\<close>

theorem storage_errors_counterexample:
  "snd (SetBaseFeeWei 241110000 (InitialState\<lparr>failing := [Store BaseFeeSlot], gasBacklog := 100000000\<rparr>))
     = Some (StorageError (Store BaseFeeSlot)) \<and>
   UpdatePricingModel reference_kit 100000000 0 4 True
     (InitialState\<lparr>failing := [Store BaseFeeSlot], gasBacklog := 100000000\<rparr>)
     = Inr (InitialState\<lparr>failing := [Store BaseFeeSlot], gasBacklog := 100000000\<rparr>) \<and>
   UpdatePricingModel reference_kit 100000000 0 4 True (InitialState\<lparr>gasBacklog := 100000000\<rparr>)
     = Inr (InitialState\<lparr>gasBacklog := 100000000, baseFeeWei := 241110000\<rparr>) \<and>
   snd (AddToGasPool 0 4 (InitialState\<lparr>failing := [Load GasBacklogSlot], gasBacklog := 100000000\<rparr>))
     = Some (StorageError (Load GasBacklogSlot)) \<and>
   UpdatePricingModel reference_kit 100000000 0 4 True
     (InitialState\<lparr>failing := [Load GasBacklogSlot], gasBacklog := 100000000\<rparr>)
     = Inr (InitialState\<lparr>failing := [Load GasBacklogSlot], gasBacklog := 100000000\<rparr>)"
proof -
  have "snd (SetBaseFeeWei 241110000
      (InitialState\<lparr>failing := [Store BaseFeeSlot], gasBacklog := 100000000\<rparr>))
     = Some (StorageError (Store BaseFeeSlot))"
    by code_simp
  moreover have "UpdatePricingModel reference_kit 100000000 0 4 True
     (InitialState\<lparr>failing := [Store BaseFeeSlot], gasBacklog := 100000000\<rparr>)
     = Inr (InitialState\<lparr>failing := [Store BaseFeeSlot], gasBacklog := 100000000\<rparr>)"
    by code_simp
  moreover have "UpdatePricingModel reference_kit 100000000 0 4 True
      (InitialState\<lparr>gasBacklog := 100000000\<rparr>)
     = Inr (InitialState\<lparr>gasBacklog := 100000000, baseFeeWei := 241110000\<rparr>)"
    by code_simp
  moreover have "snd (AddToGasPool 0 4
      (InitialState\<lparr>failing := [Load GasBacklogSlot], gasBacklog := 100000000\<rparr>))
     = Some (StorageError (Load GasBacklogSlot))"
    by code_simp
  moreover have "UpdatePricingModel reference_kit 100000000 0 4 True
     (InitialState\<lparr>failing := [Load GasBacklogSlot], gasBacklog := 100000000\<rparr>)
     = Inr (InitialState\<lparr>failing := [Load GasBacklogSlot], gasBacklog := 100000000\<rparr>)"
    by code_simp
  ultimately show ?thesis by blast
qed

text \<open>
  C10.  From version 4 on the previous base fee is not used: two updates that differ in
  \<open>prev_base_fee\<close> only, from the same state, with the same time passed and version, end
  in the same state (or both in the same panic).
\<close>

theorem exp_update_ignores_prev_base_fee:
  "FirstExponentialPricingVersion \<le> arbosVersion \<Longrightarrow>
     UpdatePricingModel K prev1 timePassed arbosVersion debug ps =
     UpdatePricingModel K prev2 timePassed arbosVersion debug ps"
  by (simp add: UpdatePricingModel_def not_less [symmetric])

theorem exp_update_ignores_prev_base_fee_witness:
  "FirstExponentialPricingVersion \<le> 4 \<and>
   UpdatePricingModel reference_kit 100000000 0 4 True (InitialState\<lparr>gasBacklog := 100000000\<rparr>) =
   UpdatePricingModel reference_kit 7 0 4 True (InitialState\<lparr>gasBacklog := 100000000\<rparr>) \<and>
   UpdatePricingModel reference_kit 7 0 4 True (InitialState\<lparr>gasBacklog := 100000000\<rparr>) =
   Inr (InitialState\<lparr>gasBacklog := 100000000, baseFeeWei := 241110000\<rparr>)"
proof -
  have v: "FirstExponentialPricingVersion \<le> 4"
    by (simp add: FirstExponentialPricingVersion_def)
  have r: "UpdatePricingModel reference_kit 7 0 4 True (InitialState\<lparr>gasBacklog := 100000000\<rparr>) =
      Inr (InitialState\<lparr>gasBacklog := 100000000, baseFeeWei := 241110000\<rparr>)"
    by code_simp
  show ?thesis
    using v r exp_update_ignores_prev_base_fee [OF v, of reference_kit 100000000 0 True
        "InitialState\<lparr>gasBacklog := 100000000\<rparr>" 7]
    by simp
qed

end
